theory Spec2Isabelle
  imports Main
begin

section \<open>Python strings\<close>

text \<open>
  A Python \<open>str\<close> is modelled as a \<open>string\<close> whose characters are ASCII code points.
  The character classes below are the ones the source's regular expressions and
  \<open>str\<close> methods use, read on that range.
\<close>

definition is_word_char :: "char \<Rightarrow> bool" where
  \<comment> \<open>\<open>\w\<close>: letters, digits and the underscore\<close>
  "is_word_char c = (let n = (of_char c :: nat) in
     (48 \<le> n \<and> n \<le> 57) \<or> (65 \<le> n \<and> n \<le> 90) \<or> (97 \<le> n \<and> n \<le> 122) \<or> n = 95)"

definition is_digit_char :: "char \<Rightarrow> bool" where
  "is_digit_char c = (let n = (of_char c :: nat) in 48 \<le> n \<and> n \<le> 57)"

definition is_space_ascii :: "char \<Rightarrow> bool" where
  \<comment> \<open>\<open>\s\<close> in a pattern compiled with \<open>re.ASCII\<close>: space, tab, newline, return, form feed, vertical tab\<close>
  "is_space_ascii c = (let n = (of_char c :: nat) in (9 \<le> n \<and> n \<le> 13) \<or> n = 32)"

definition is_space :: "char \<Rightarrow> bool" where
  \<comment> \<open>\<open>str.isspace\<close>, and \<open>\s\<close> in a pattern without \<open>re.ASCII\<close>: also the separators 28 to 31\<close>
  "is_space c = (let n = (of_char c :: nat) in (9 \<le> n \<and> n \<le> 13) \<or> (28 \<le> n \<and> n \<le> 32))"

definition lower_char :: "char \<Rightarrow> char" where
  "lower_char c = (let n = (of_char c :: nat) in if 65 \<le> n \<and> n \<le> 90 then char_of (n + 32) else c)"

definition py_lower :: "string \<Rightarrow> string" where
  "py_lower s = map lower_char s"

definition casefold :: "string \<Rightarrow> string" where
  "casefold s = map lower_char s"

definition py_strip :: "string \<Rightarrow> string" where
  "py_strip s = rev (dropWhile is_space (rev (dropWhile is_space s)))"

definition strip_chars :: "string \<Rightarrow> string \<Rightarrow> string" where
  \<comment> \<open>\<open>s.strip(chars)\<close>\<close>
  "strip_chars chars s =
     rev (dropWhile (\<lambda>c. c \<in> set chars) (rev (dropWhile (\<lambda>c. c \<in> set chars) s)))"

definition isdigit :: "string \<Rightarrow> bool" where
  "isdigit s = (s \<noteq> [] \<and> list_all is_digit_char s)"

fun startswith :: "string \<Rightarrow> string \<Rightarrow> bool" where
  "startswith s [] = True"
| "startswith [] (p # ps) = False"
| "startswith (c # cs) (p # ps) = (c = p \<and> startswith cs ps)"

fun contains :: "string \<Rightarrow> string \<Rightarrow> bool" where
  \<comment> \<open>\<open>sub in s\<close>\<close>
  "contains [] sub = (sub = [])"
| "contains (c # cs) sub = (startswith (c # cs) sub \<or> contains cs sub)"

function split_on :: "string \<Rightarrow> string \<Rightarrow> string \<Rightarrow> string list" where
  "split_on sep cur [] = [rev cur]"
| "split_on sep cur (c # cs) =
     (if sep \<noteq> [] \<and> startswith (c # cs) sep
      then rev cur # split_on sep [] (drop (length sep) (c # cs))
      else split_on sep (c # cur) cs)"
  by pat_completeness auto
termination
  by (relation "measure (\<lambda>(sep, cur, s). length s)") auto

definition py_split :: "string \<Rightarrow> string \<Rightarrow> string list" where
  \<comment> \<open>\<open>s.split(sep)\<close> for a non-empty separator\<close>
  "py_split sep s = split_on sep [] s"

fun split_ws_from :: "string \<Rightarrow> string \<Rightarrow> string list" where
  "split_ws_from cur [] = (if cur = [] then [] else [rev cur])"
| "split_ws_from cur (c # cs) =
     (if is_space c
      then (if cur = [] then split_ws_from [] cs else rev cur # split_ws_from [] cs)
      else split_ws_from (c # cur) cs)"

definition py_split_ws :: "string \<Rightarrow> string list" where
  \<comment> \<open>\<open>s.split()\<close>: the words between runs of whitespace\<close>
  "py_split_ws s = split_ws_from [] s"

section \<open>Regular expressions\<close>

text \<open>
  The patterns that are only asked whether they match are regular expressions over
  character classes, matched by derivatives. The patterns whose groups or split points
  are used are written out as functions further down.
\<close>

datatype rx = Zero | One | Atom "char \<Rightarrow> bool" | Alt rx rx | Seq rx rx | Star rx

fun nullable :: "rx \<Rightarrow> bool" where
  "nullable Zero = False"
| "nullable One = True"
| "nullable (Atom p) = False"
| "nullable (Alt a b) = (nullable a \<or> nullable b)"
| "nullable (Seq a b) = (nullable a \<and> nullable b)"
| "nullable (Star a) = True"

fun deriv :: "char \<Rightarrow> rx \<Rightarrow> rx" where
  "deriv c Zero = Zero"
| "deriv c One = Zero"
| "deriv c (Atom p) = (if p c then One else Zero)"
| "deriv c (Alt a b) = Alt (deriv c a) (deriv c b)"
| "deriv c (Seq a b) =
     (if nullable a then Alt (Seq (deriv c a) b) (deriv c b) else Seq (deriv c a) b)"
| "deriv c (Star a) = Seq (deriv c a) (Star a)"

fun rx_full :: "rx \<Rightarrow> string \<Rightarrow> bool" where
  "rx_full r [] = nullable r"
| "rx_full r (c # cs) = rx_full (deriv c r) cs"

definition Plus :: "rx \<Rightarrow> rx" where
  "Plus r = Seq r (Star r)"

definition Opt :: "rx \<Rightarrow> rx" where
  "Opt r = Alt r One"

definition Lit :: "char \<Rightarrow> rx" where
  "Lit c = Atom (\<lambda>x. x = c)"

definition LitI :: "char \<Rightarrow> rx" where
  \<comment> \<open>a letter under \<open>re.IGNORECASE\<close>\<close>
  "LitI c = Atom (\<lambda>x. lower_char x = lower_char c)"

definition re_match :: "rx \<Rightarrow> string \<Rightarrow> bool" where
  \<comment> \<open>\<open>re.compile("^" + r + "$").match(s)\<close>: Python's \<open>$\<close> also matches just before a
      newline that ends the string\<close>
  "re_match r s = (rx_full r s \<or> (s \<noteq> [] \<and> last s = CHR 0x0A \<and> rx_full r (butlast s)))"

definition TABLE_NAME_PATTERN :: rx where
  \<comment> \<open>\<open>^[\w -]*$\<close>, \<open>re.ASCII\<close>\<close>
  "TABLE_NAME_PATTERN = Star (Atom (\<lambda>c. is_word_char c \<or> c = CHR '' '' \<or> c = CHR ''-''))"

definition qualified_name :: rx where
  \<comment> \<open>\<open>(?:`?\w+`?\.)?(`?\w+`?|\w+)\<close>\<close>
  "qualified_name =
     Seq (Opt (Seq (Opt (Lit (CHR 0x60)))
            (Seq (Plus (Atom is_word_char)) (Seq (Opt (Lit (CHR 0x60))) (Lit CHR ''.'')))))
         (Alt (Seq (Opt (Lit (CHR 0x60))) (Seq (Plus (Atom is_word_char)) (Opt (Lit (CHR 0x60)))))
              (Plus (Atom is_word_char)))"

definition as_alias :: "(char \<Rightarrow> rx) \<Rightarrow> rx" where
  \<comment> \<open>\<open>(?:\s+as\s+\w+)?\<close>\<close>
  "as_alias letter =
     Opt (Seq (Plus (Atom is_space_ascii))
           (Seq (letter CHR ''a'') (Seq (letter CHR ''s'')
             (Seq (Plus (Atom is_space_ascii)) (Plus (Atom is_word_char))))))"

definition ALLOWED_FIELD_PATTERN :: rx where
  \<comment> \<open>\<open>^(?:`?\w+`?\.)?(`?\w+`?|\w+)(?:\s+as\s+\w+)?$\<close>, \<open>re.ASCII\<close>\<close>
  "ALLOWED_FIELD_PATTERN = Seq qualified_name (as_alias Lit)"

definition FUNCTION_CALL_PATTERN :: rx where
  \<comment> \<open>\<open>^\w+\(.*\)(?:\s+as\s+\w+)?$\<close>, \<open>re.IGNORECASE | re.ASCII\<close>; the dot matches all but a newline\<close>
  "FUNCTION_CALL_PATTERN =
     Seq (Plus (Atom is_word_char))
       (Seq (Lit CHR ''('') (Seq (Star (Atom (\<lambda>c. c \<noteq> CHR 0x0A)))
         (Seq (Lit CHR '')'') (as_alias LitI))))"

definition ALLOWED_SQL_FIELD_PATTERN :: rx where
  \<comment> \<open>\<open>^(?:`?\w+`?\.)?(`?\w+`?|\w+)$\<close>, \<open>re.ASCII\<close>\<close>
  "ALLOWED_SQL_FIELD_PATTERN = qualified_name"

definition SPECIAL_CHAR_PATTERN_search :: "string \<Rightarrow> bool" where
  \<comment> \<open>Modelled from the spec: \<open>SPECIAL_CHAR_PATTERN\<close> of \<open>frappe.database.schema\<close> is not among the
      sources; the spec has it find a character outside the plain-identifier alphabet.\<close>
  "SPECIAL_CHAR_PATTERN_search s = list_ex (\<lambda>c. \<not> is_word_char c) s"

subsection \<open>Patterns with groups and split points\<close>

definition is_quote :: "char \<Rightarrow> bool" where
  \<comment> \<open>\<open>[`"]\<close>\<close>
  "is_quote c = (c = CHR 0x60 \<or> c = CHR 0x22)"

definition opt_quote :: "string \<Rightarrow> string" where
  \<comment> \<open>\<open>[`"]?\<close> in front of something that cannot start with a quote\<close>
  "opt_quote s = (case s of [] \<Rightarrow> [] | c # cs \<Rightarrow> if is_quote c then cs else s)"

definition field_name_tail :: "string \<Rightarrow> string option" where
  \<comment> \<open>\<open>[`"]?(\w+)[`"]?$\<close>: the group\<close>
  "field_name_tail s =
     (let s1 = opt_quote s;
          w = takeWhile is_word_char s1;
          r = opt_quote (dropWhile is_word_char s1)
      in if w \<noteq> [] \<and> (r = [] \<or> r = [CHR 0x0A]) then Some w else None)"

definition table_prefix :: "string \<Rightarrow> (string \<times> string) option" where
  \<comment> \<open>\<open>[`"]?(tab\w+)[`"]?\.\<close>: the group and what follows the dot\<close>
  "table_prefix s =
     (let s1 = opt_quote s;
          w = takeWhile is_word_char s1;
          r = opt_quote (dropWhile is_word_char s1)
      in if startswith w ''tab'' \<and> 3 < length w
         then (case r of [] \<Rightarrow> None | c # r2 \<Rightarrow> if c = CHR ''.'' then Some (w, r2) else None)
         else None)"

definition FIELD_PARSE_REGEX_match :: "string \<Rightarrow> (string option \<times> string) option" where
  \<comment> \<open>\<open>^(?:[`"]?(tab\w+)[`"]?\.)?[`"]?(\w+)[`"]?$\<close>: \<open>match(s).groups()\<close>, None when there is no match\<close>
  "FIELD_PARSE_REGEX_match s =
     (let plain = map_option (\<lambda>f. (None, f)) (field_name_tail s)
      in case table_prefix s of
           None \<Rightarrow> plain
         | Some (t, r) \<Rightarrow>
             (case field_name_tail r of None \<Rightarrow> plain | Some f \<Rightarrow> Some (Some t, f)))"

definition lookahead_closes :: "string \<Rightarrow> bool" where
  \<comment> \<open>\<open>[^()]*\)\<close> matches at the start of the string\<close>
  "lookahead_closes s =
     (case dropWhile (\<lambda>c. c \<noteq> CHR ''('' \<and> c \<noteq> CHR '')'') s of
        [] \<Rightarrow> False | c # cs \<Rightarrow> c = CHR '')'')"

function comma_split_from :: "string \<Rightarrow> string \<Rightarrow> string list" where
  "comma_split_from cur [] = [rev cur]"
| "comma_split_from cur (c # cs) =
     (if c = CHR '','' \<and> \<not> lookahead_closes (dropWhile is_space cs)
      then rev cur # comma_split_from [] (dropWhile is_space cs)
      else comma_split_from (c # cur) cs)"
  by pat_completeness auto
termination
  by (relation "measure (\<lambda>(cur, s). length s)")
     (auto simp: length_dropWhile_le less_Suc_eq_le)

definition COMMA_PATTERN_split :: "string \<Rightarrow> string list" where
  \<comment> \<open>\<open>re.compile(r",\s*(?![^()]*\))").split(s)\<close>: split at the commas outside a call's brackets\<close>
  "COMMA_PATTERN_split s = comma_split_from [] s"

definition as_match :: "string \<Rightarrow> string option" where
  \<comment> \<open>\<open>\s+as\s+\<close> under \<open>re.IGNORECASE\<close>, matched at the start of the string: what follows the match\<close>
  "as_match s =
     (if s \<noteq> [] \<and> is_space (hd s)
      then (case dropWhile is_space s of
              a # b # r \<Rightarrow>
                if lower_char a = CHR ''a'' \<and> lower_char b = CHR ''s'' \<and> r \<noteq> [] \<and> is_space (hd r)
                then Some (dropWhile is_space r) else None
            | _ \<Rightarrow> None)
      else None)"

lemma as_match_shorter: "as_match s = Some r \<Longrightarrow> length r < length s"
proof -
  assume a: "as_match s = Some r"
  have d: "\<And>xs. length (dropWhile is_space xs) \<le> length xs"
    by (rule length_dropWhile_le)
  from a obtain x y t where s: "dropWhile is_space s = x # y # t" and r: "r = dropWhile is_space t"
    by (auto simp: as_match_def split: if_splits list.splits)
  have "length r \<le> length t" using r d by simp
  moreover have "length (x # y # t) \<le> length s" using d [of s] s by simp
  ultimately show ?thesis by simp
qed

function as_split_from :: "string \<Rightarrow> string \<Rightarrow> string list" where
  "as_split_from cur [] = [rev cur]"
| "as_split_from cur (c # cs) =
     (case as_match (c # cs) of
        Some r \<Rightarrow> rev cur # as_split_from [] r
      | None \<Rightarrow> as_split_from (c # cur) cs)"
  by pat_completeness auto
termination
  by (relation "measure (\<lambda>(cur, s). length s)") (auto dest: as_match_shorter)

definition as_split :: "string \<Rightarrow> string list" where
  \<comment> \<open>\<open>re.split(r"\s+as\s+", s, flags=re.IGNORECASE)\<close>\<close>
  "as_split s = as_split_from [] s"

definition greedy_field :: "char \<Rightarrow> string \<Rightarrow> string option" where
  \<comment> \<open>\<open>(.+)\1\<close> with the quote \<open>q\<close> for \<open>\1\<close>: the longest non-empty run without a newline that a
      quote follows\<close>
  "greedy_field q s =
     (let line = takeWhile (\<lambda>c. c \<noteq> CHR 0x0A) s;
          at = filter (\<lambda>i. line ! i = q) [1 ..< length line]
      in if at = [] then None else Some (take (last at) line))"

definition child_tail :: "char \<Rightarrow> string \<Rightarrow> string option" where
  \<comment> \<open>\<open>\1.\1(.+)\1\<close>: the dot of the pattern is not escaped and stands for any character but a newline\<close>
  "child_tail q s =
     (case s of
        a # d # b # r \<Rightarrow> if a = q \<and> d \<noteq> CHR 0x0A \<and> b = q then greedy_field q r else None
      | _ \<Rightarrow> None)"

fun lazy_doctype :: "char \<Rightarrow> string \<Rightarrow> string \<Rightarrow> (string \<times> string) option" where
  \<comment> \<open>\<open>(.+?)\<close> followed by the tail: the shortest non-empty run that lets the tail match\<close>
  "lazy_doctype q acc [] = None"
| "lazy_doctype q acc (c # cs) =
     (if c = CHR 0x0A then None
      else (case child_tail q cs of
              Some f \<Rightarrow> Some (rev (c # acc), f)
            | None \<Rightarrow> lazy_doctype q (c # acc) cs))"

definition child_match_here :: "string \<Rightarrow> (string \<times> string) option" where
  "child_match_here s =
     (case s of
        q # t # a # b # r \<Rightarrow>
          if is_quote q \<and> t = CHR ''t'' \<and> a = CHR ''a'' \<and> b = CHR ''b''
          then lazy_doctype q [] r else None
      | _ \<Rightarrow> None)"

fun child_field_search :: "string \<Rightarrow> (string \<times> string) option" where
  \<comment> \<open>\<open>re.search(r'([`"])tab(.+?)\1.\1(.+)\1', s)\<close>: groups 2 and 3 of the leftmost match\<close>
  "child_field_search [] = None"
| "child_field_search (c # cs) =
     (case child_match_here (c # cs) of
        Some r \<Rightarrow> Some r
      | None \<Rightarrow> child_field_search cs)"

section \<open>Python objects and the query under construction\<close>

datatype error =
    PermissionError string
  | ValidationError string
  | TypeError string
  | ValueError string
  | AttributeError string
  | KeyError string
  | IndexError string

text \<open>\<open>frappe.qb.DocType(name)\<close>: the table of an entity, identified by the name it was made from.\<close>

datatype table = DocType string

text \<open>
  The values the builder handles are Python objects of many classes, told apart with
  \<open>isinstance\<close>. They form one type. \<open>FieldObj t n a\<close> is a pypika \<open>Field\<close> (a column \<open>n\<close> of table
  \<open>t\<close> with alias \<open>a\<close>; the star of a table is the field named \<open>*\<close>). \<open>OtherCriterion\<close> stands for
  a criterion of a class the builder does not look into (a function term, a term built by the
  operator table); \<open>OtherObject\<close> for an object of any other class. A \<open>ChildQuery\<close> carries its
  attributes \<open>(fieldname, fields, parent_doctype, doctype)\<close>, or \<open>None\<close> when its constructor
  returned before setting them.
\<close>

datatype pyobj =
    PNone
  | PBool bool
  | PInt int
  | PStr string
  | PList "pyobj list"
  | PTuple "pyobj list"
  | PSet "pyobj list"
  | PDict "(pyobj \<times> pyobj) list"
  | FieldObj table string "string option"
  | IsNullCrit pyobj
  | IsInCrit pyobj pyobj
  | NotInCrit pyobj pyobj
  | EqCrit pyobj pyobj
  | AndCrit pyobj pyobj
  | OrCrit pyobj pyobj
  | EmptyCriterion
  | OtherCriterion string
  | RawCriterion string
  | PseudoColumnMapper string
  | ChildTableField string string string "string option" "string option"
  | LinkTableField string string string string "string option"
  | ChildQuery "(string \<times> pyobj list \<times> string \<times> string) option"
  | OtherObject string

fun truthy :: "pyobj \<Rightarrow> bool" where
  "truthy PNone = False"
| "truthy (PBool b) = b"
| "truthy (PInt n) = (n \<noteq> 0)"
| "truthy (PStr s) = (s \<noteq> [])"
| "truthy (PList xs) = (xs \<noteq> [])"
| "truthy (PTuple xs) = (xs \<noteq> [])"
| "truthy (PSet xs) = (xs \<noteq> [])"
| "truthy (PDict kvs) = (kvs \<noteq> [])"
| "truthy other = True"

fun is_Criterion :: "pyobj \<Rightarrow> bool" where
  "is_Criterion (FieldObj t n a) = True"
| "is_Criterion (IsNullCrit x) = True"
| "is_Criterion (IsInCrit x y) = True"
| "is_Criterion (NotInCrit x y) = True"
| "is_Criterion (EqCrit x y) = True"
| "is_Criterion (AndCrit x y) = True"
| "is_Criterion (OrCrit x y) = True"
| "is_Criterion EmptyCriterion = True"
| "is_Criterion (OtherCriterion s) = True"
| "is_Criterion other = False"

fun is_Field :: "pyobj \<Rightarrow> bool" where
  "is_Field (FieldObj t n a) = True"
| "is_Field other = False"

fun is_str :: "pyobj \<Rightarrow> bool" where
  "is_str (PStr s) = True"
| "is_str other = False"

fun is_dict :: "pyobj \<Rightarrow> bool" where
  "is_dict (PDict kvs) = True"
| "is_dict other = False"

fun is_list_or_tuple :: "pyobj \<Rightarrow> bool" where
  "is_list_or_tuple (PList xs) = True"
| "is_list_or_tuple (PTuple xs) = True"
| "is_list_or_tuple other = False"

fun is_DynamicTableField :: "pyobj \<Rightarrow> bool" where
  "is_DynamicTableField (ChildTableField d f p pf a) = True"
| "is_DynamicTableField (LinkTableField d f p l a) = True"
| "is_DynamicTableField other = False"

fun is_ChildQuery :: "pyobj \<Rightarrow> bool" where
  "is_ChildQuery (ChildQuery c) = True"
| "is_ChildQuery other = False"

fun seq_items :: "pyobj \<Rightarrow> pyobj list" where
  "seq_items (PList xs) = xs"
| "seq_items (PTuple xs) = xs"
| "seq_items (PSet xs) = xs"
| "seq_items other = []"

definition Criterion_all :: "pyobj list \<Rightarrow> pyobj" where
  \<comment> \<open>\<open>Criterion.all(terms)\<close>: the terms joined with \<open>&\<close>, starting from the empty criterion,
      which \<open>&\<close> absorbs\<close>
  "Criterion_all terms = (case terms of [] \<Rightarrow> EmptyCriterion | t # ts \<Rightarrow> foldl AndCrit t ts)"

datatype qmode = SelectMode | UpdateMode | InsertMode | DeleteMode

datatype order = Asc | Desc

text \<open>
  The query builder of pypika is used through \<open>select\<close>, \<open>where\<close>, \<open>left_join(...).on(...)\<close>,
  \<open>is_joined\<close>, \<open>orderby\<close>, \<open>groupby\<close>, \<open>limit\<close>, \<open>offset\<close>, \<open>distinct\<close> and \<open>for_update\<close>. The
  query is the record of what these calls were given, in call order.
\<close>

record query =
  q_mode :: qmode
  q_from :: table
  q_selects :: "pyobj list"
  q_joins :: "(table \<times> pyobj) list"
  q_wheres :: "pyobj list"
  q_orderbys :: "(string \<times> order) list"
  q_groupbys :: "string list"
  q_limit :: "pyobj option"
  q_offset :: "pyobj option"
  q_distinct :: bool
  q_for_update :: "(bool \<times> bool) option"
  q_child_queries :: "pyobj list"
  q_immutable :: bool

definition new_query :: "qmode \<Rightarrow> table \<Rightarrow> query" where
  \<comment> \<open>\<open>qb.from_(table, immutable=False)\<close> and its siblings \<open>update\<close>, \<open>into\<close>, \<open>from_(...).delete()\<close>\<close>
  "new_query m t =
     \<lparr> q_mode = m, q_from = t, q_selects = [], q_joins = [], q_wheres = [], q_orderbys = [],
       q_groupbys = [], q_limit = None, q_offset = None, q_distinct = False,
       q_for_update = None, q_child_queries = [], q_immutable = False \<rparr>"

definition q_select :: "query \<Rightarrow> pyobj \<Rightarrow> query" where
  "q_select q f = q\<lparr>q_selects := q_selects q @ [f]\<rparr>"

definition q_where :: "query \<Rightarrow> pyobj \<Rightarrow> query" where
  "q_where q c = q\<lparr>q_wheres := q_wheres q @ [c]\<rparr>"

definition is_joined :: "query \<Rightarrow> table \<Rightarrow> bool" where
  \<comment> \<open>pypika: some join of the query has this table as its item\<close>
  "is_joined q t = (t \<in> set (map fst (q_joins q)))"

definition left_join_on :: "query \<Rightarrow> table \<Rightarrow> pyobj \<Rightarrow> query" where
  "left_join_on q t c = q\<lparr>q_joins := q_joins q @ [(t, c)]\<rparr>"

section \<open>The services the builder calls\<close>

record docfield =
  df_fieldtype :: string
  df_options :: string

record link_field =
  lf_fieldname :: string
  lf_options :: string
  lf_ignore_user_permissions :: bool

record user_permission =
  up_doc :: string
  up_applicable_for :: "string option"

record role_permissions =
  rp_read :: bool
  rp_select :: bool
  rp_has_if_owner_enabled :: bool
  rp_if_owner :: "string list"

text \<open>
  Everything the source imports from outside its file is a field of the environment: the
  metadata, permission, sharing and hook services, the system setting, the rows of the tree
  tables that the hierarchy operators read (name, \<open>lft\<close>, \<open>rgt\<close>), and the helpers
  \<open>FilterValue\<close>, \<open>convert_to_value\<close>, \<open>get_doctype_name\<close>, \<open>OPERATOR_MAP\<close>, \<open>SqlFunctions\<close>,
  \<open>DefaultOrderBy\<close>, \<open>frappe.model.table_fields\<close>, \<open>sqlparse.format\<close> and
  \<open>MARIADB_SPECIFIC_COMMENT.sub\<close>. The method \<open>get_function_object\<close> of the engine turns a string
  holding a function call into a pypika \<open>Function\<close>, a criterion: it decodes literals with Python's
  \<open>literal_eval\<close> and looks the name up in the function registry, reads nothing of the engine
  and leaves the query alone. What it builds is \<open>function_term\<close> of the environment, a function
  from the string to a description of the term, or an error.
\<close>

record env =
  db_type :: string
  session_user :: string
  get_doctype_name :: "table \<Rightarrow> string"
  meta_get_field :: "string \<Rightarrow> string \<Rightarrow> docfield option"
  meta_istable :: "string \<Rightarrow> bool"
  meta_get_link_fields :: "string \<Rightarrow> link_field list"
  table_fields :: "string list"
  has_permission :: "string \<Rightarrow> string \<Rightarrow> string \<Rightarrow> string option \<Rightarrow> bool"
  get_role_permissions :: "string \<Rightarrow> string \<Rightarrow> role_permissions"
  get_permitted_fields :: "string \<Rightarrow> string option \<Rightarrow> string \<Rightarrow> string list"
  only_has_select_perm :: "string \<Rightarrow> string \<Rightarrow> bool"
  get_user_permissions :: "string \<Rightarrow> (string \<times> user_permission list) list"
  apply_strict_user_permissions :: bool
  get_shared :: "string \<Rightarrow> string \<Rightarrow> string list"
  permission_hooks :: "string \<Rightarrow> (string \<Rightarrow> string \<Rightarrow> string option) list"
  permission_script :: "string \<Rightarrow> (string \<Rightarrow> string option) option"
  SqlFunctions :: "string list"
  function_term :: "string \<Rightarrow> error + string"
  sqlparse_format :: "string \<Rightarrow> string"
  MARIADB_SPECIFIC_COMMENT_sub :: "string \<Rightarrow> string"
  is_FilterValue :: "pyobj \<Rightarrow> bool"
  convert_to_value :: "pyobj \<Rightarrow> error + pyobj"
  OPERATOR_MAP :: "string \<Rightarrow> (pyobj \<Rightarrow> pyobj \<Rightarrow> error + pyobj) option"
  DefaultOrderBy :: string
  db_rows :: "string \<Rightarrow> (string \<times> int option \<times> int option) list"

text \<open>The attributes \<open>get_query\<close> sets on the engine.\<close>

record engine =
  e_doctype :: string
  e_table :: table
  e_user :: string
  e_parent_doctype :: "string option"
  e_apply_permissions :: bool
  e_is_mariadb :: bool
  e_fields :: "pyobj list"
  e_query :: query

section \<open>Dynamic fields\<close>

definition DynamicTableField_parse :: "env \<Rightarrow> string \<Rightarrow> string \<Rightarrow> error + pyobj option" where
  "DynamicTableField_parse ev field doctype =
     (if contains field ''.'' then
        (case (if contains field '' as ''
               then (case py_split '' as '' field of
                       [f, a] \<Rightarrow> Inr (f, Some a)
                     | _ \<Rightarrow> Inl (ValueError ''too many values to unpack''))
               else Inr (field, None)) of
           Inl e \<Rightarrow> Inl e
         | Inr (field, alias) \<Rightarrow>
             if startswith field (CHR 0x60 # ''tab'') \<or> startswith field (CHR 0x22 # ''tab'')
             then (case child_field_search field of
                     None \<Rightarrow> Inl (AttributeError ''groups'')
                   | Some (child_doctype, child_field) \<Rightarrow>
                       if child_doctype = doctype then Inr None
                       else Inr (Some (ChildTableField child_doctype child_field doctype None alias)))
             else (case py_split ''.'' field of
                     [linked_fieldname, fieldname] \<Rightarrow>
                       (case meta_get_field ev doctype linked_fieldname of
                          None \<Rightarrow> Inl (AttributeError ''options'')
                        | Some linked_field \<Rightarrow>
                            if df_fieldtype linked_field = ''Link''
                            then Inr (Some (LinkTableField (df_options linked_field) fieldname
                                              doctype linked_fieldname alias))
                            else if df_fieldtype linked_field \<in> set (table_fields ev)
                            then Inr (Some (ChildTableField (df_options linked_field) fieldname
                                              doctype (Some linked_fieldname) alias))
                            else Inr None)
                   | _ \<Rightarrow> Inl (ValueError ''values to unpack'')))
      else Inr None)"

definition alias_or_None :: "string option \<Rightarrow> string option" where
  \<comment> \<open>\<open>self.alias or None\<close>\<close>
  "alias_or_None a = (case a of None \<Rightarrow> None | Some s \<Rightarrow> if s = [] then None else Some s)"

fun dynamic_field :: "pyobj \<Rightarrow> pyobj" where
  \<comment> \<open>the attribute \<open>field\<close> that both constructors set: \<open>self.table[self.fieldname]\<close>\<close>
  "dynamic_field (ChildTableField doctype fieldname parent_doctype parent_fieldname alias) =
     FieldObj (DocType doctype) fieldname None"
| "dynamic_field (LinkTableField doctype fieldname parent_doctype link_fieldname alias) =
     FieldObj (DocType doctype) fieldname None"
| "dynamic_field other = other"

fun apply_join :: "pyobj \<Rightarrow> query \<Rightarrow> query" where
  "apply_join (ChildTableField doctype fieldname parent_doctype parent_fieldname alias) query =
     (let table = DocType doctype; main_table = DocType parent_doctype
      in if \<not> is_joined query table
         then left_join_on query table
                (AndCrit (EqCrit (FieldObj table ''parent'' None) (FieldObj main_table ''name'' None))
                         (EqCrit (FieldObj table ''parenttype'' None) (PStr parent_doctype)))
         else query)"
| "apply_join (LinkTableField doctype fieldname parent_doctype link_fieldname alias) query =
     (let table = DocType doctype; main_table = DocType parent_doctype
      in if \<not> is_joined query table
         then left_join_on query table
                (EqCrit (FieldObj table ''name'' None) (FieldObj main_table link_fieldname None))
         else query)"
| "apply_join other query = query"

fun apply_select :: "pyobj \<Rightarrow> query \<Rightarrow> query" where
  "apply_select (ChildTableField doctype fieldname parent_doctype parent_fieldname alias) query =
     q_select (apply_join (ChildTableField doctype fieldname parent_doctype parent_fieldname alias) query)
       (FieldObj (DocType doctype) fieldname (alias_or_None alias))"
| "apply_select (LinkTableField doctype fieldname parent_doctype link_fieldname alias) query =
     q_select (apply_join (LinkTableField doctype fieldname parent_doctype link_fieldname alias) query)
       (FieldObj (DocType doctype) fieldname (alias_or_None alias))"
| "apply_select other query = query"

definition ChildQuery_init :: "env \<Rightarrow> pyobj \<Rightarrow> pyobj list \<Rightarrow> string \<Rightarrow> error + pyobj" where
  \<comment> \<open>\<open>ChildQuery(fieldname, fields, parent_doctype)\<close>: the object the call evaluates to. A
      \<open>return\<close> in \<open>__init__\<close> ends the initialisation, not the construction.\<close>
  "ChildQuery_init ev fieldname child_fields parent_doctype =
     (case (case fieldname of PStr k \<Rightarrow> map_option (Pair k) (meta_get_field ev parent_doctype k)
                            | _ \<Rightarrow> None) of
        None \<Rightarrow> Inl (AttributeError ''fieldtype'')
      | Some (k, field) \<Rightarrow>
          if df_fieldtype field \<notin> set (table_fields ev) then Inr (ChildQuery None)
          else Inr (ChildQuery (Some (k, child_fields, parent_doctype, df_options field))))"

section \<open>Parsing the field list\<close>

definition validate_select_field :: "string \<Rightarrow> error + unit" where
  "validate_select_field field =
     (if field = ''*'' then Inr ()
      else if isdigit field then Inr ()
      else if re_match ALLOWED_FIELD_PATTERN field \<or> re_match FUNCTION_CALL_PATTERN field then Inr ()
      else Inl (PermissionError (''Invalid field format for SELECT: '' @ field)))"

definition sanitize_field :: "env \<Rightarrow> string \<Rightarrow> bool \<Rightarrow> error + string" where
  "sanitize_field ev field is_mariadb =
     (case validate_select_field field of
        Inl e \<Rightarrow> Inl e
      | Inr u \<Rightarrow>
          (let stripped_field = sqlparse_format ev field;
               stripped_field = (if is_mariadb then MARIADB_SPECIFIC_COMMENT_sub ev stripped_field
                                 else stripped_field)
           in Inr (py_strip stripped_field)))"

definition SQL_FUNCTIONS :: "env \<Rightarrow> string list" where
  "SQL_FUNCTIONS ev = map (\<lambda>v. v @ ''('') (SqlFunctions ev)"

definition has_function :: "env \<Rightarrow> string \<Rightarrow> bool" where
  "has_function ev field =
     (let field = (if \<not> contains field [CHR 0x60] then casefold field else field)
      in list_ex (\<lambda>func. contains field func) (SQL_FUNCTIONS ev))"

definition get_function_object :: "env \<Rightarrow> string \<Rightarrow> error + pyobj" where
  "get_function_object ev field = map_sum id OtherCriterion (function_term ev field)"

definition parse_string_field :: "engine \<Rightarrow> string \<Rightarrow> error + pyobj" where
  "parse_string_field eng field =
     (if field = ''*'' then Inr (FieldObj (e_table eng) ''*'' None)
      else
        (let (field_part, alias) =
               (if contains (py_lower field) '' as ''
                then (case as_split field of
                        p0 # p1 # ps \<Rightarrow>
                          (py_strip p0, Some (strip_chars [CHR 0x60, CHR 0x22] (py_strip p1)))
                      | _ \<Rightarrow> (field, None))
                else (field, None))
         in case FIELD_PARSE_REGEX_match field_part of
              None \<Rightarrow> Inl (ValidationError (''Could not parse field: '' @ field))
            | Some (table_name, field_name) \<Rightarrow>
                (let tbl = (case table_name of Some t \<Rightarrow> DocType t | None \<Rightarrow> e_table eng)
                 in Inr (FieldObj tbl field_name (alias_or_None alias)))))"

fun child_queries_of_dict :: "env \<Rightarrow> string \<Rightarrow> (pyobj \<times> pyobj) list \<Rightarrow> error + pyobj list" where
  "child_queries_of_dict ev doctype [] = Inr []"
| "child_queries_of_dict ev doctype ((child_field, child_fields_list) # rest) =
     (if \<not> is_list_or_tuple child_fields_list
      then Inl (ValidationError ''Child query fields must be a list or tuple.'')
      else (case ChildQuery_init ev child_field (seq_items child_fields_list) doctype of
              Inl e \<Rightarrow> Inl e
            | Inr cq \<Rightarrow>
                (case child_queries_of_dict ev doctype rest of
                   Inl e \<Rightarrow> Inl e
                 | Inr cqs \<Rightarrow> Inr (cq # cqs))))"

definition parse_single_field_item :: "env \<Rightarrow> engine \<Rightarrow> pyobj \<Rightarrow> error + pyobj" where
  \<comment> \<open>the list a dict gives is returned as a \<open>PList\<close>, \<open>None\<close> as \<open>PNone\<close>\<close>
  "parse_single_field_item ev eng field =
     (if is_Criterion field then Inr field
      else case field of
        PDict kvs \<Rightarrow> map_sum id PList (child_queries_of_dict ev (e_doctype eng) kvs)
      | PStr s \<Rightarrow>
          if has_function ev s then get_function_object ev s
          else (case DynamicTableField_parse ev s (e_doctype eng) of
                  Inl e \<Rightarrow> Inl e
                | Inr (Some parsed) \<Rightarrow> Inr parsed
                | Inr None \<Rightarrow> parse_string_field eng s)
      | _ \<Rightarrow> Inl (ValidationError ''Invalid field type''))"

fun sanitize_strings :: "env \<Rightarrow> bool \<Rightarrow> string list \<Rightarrow> error + pyobj list" where
  "sanitize_strings ev m [] = Inr []"
| "sanitize_strings ev m (f # fs) =
     (if py_strip f = [] then sanitize_strings ev m fs
      else (case sanitize_field ev (py_strip f) m of
              Inl e \<Rightarrow> Inl e
            | Inr s \<Rightarrow> (case sanitize_strings ev m fs of Inl e \<Rightarrow> Inl e | Inr ss \<Rightarrow> Inr (PStr s # ss))))"

fun sanitize_items :: "env \<Rightarrow> bool \<Rightarrow> pyobj list \<Rightarrow> error + pyobj list" where
  "sanitize_items ev m [] = Inr []"
| "sanitize_items ev m (f # fs) =
     (case (case f of PStr s \<Rightarrow> map_sum id PStr (sanitize_field ev s m) | _ \<Rightarrow> Inr f) of
        Inl e \<Rightarrow> Inl e
      | Inr x \<Rightarrow> (case sanitize_items ev m fs of Inl e \<Rightarrow> Inl e | Inr xs \<Rightarrow> Inr (x # xs)))"

fun parse_items :: "env \<Rightarrow> engine \<Rightarrow> pyobj list \<Rightarrow> error + pyobj list" where
  "parse_items ev eng [] = Inr []"
| "parse_items ev eng (field_item # rest) =
     (case parse_single_field_item ev eng field_item of
        Inl e \<Rightarrow> Inl e
      | Inr parsed \<Rightarrow>
          (case parse_items ev eng rest of
             Inl e \<Rightarrow> Inl e
           | Inr fs \<Rightarrow>
               Inr ((case parsed of PList xs \<Rightarrow> xs
                     | _ \<Rightarrow> if truthy parsed then [parsed] else []) @ fs)))"

definition parse_fields :: "env \<Rightarrow> engine \<Rightarrow> pyobj \<Rightarrow> error + pyobj list" where
  "parse_fields ev eng field_spec =
     (if \<not> truthy field_spec then Inr []
      else case (case field_spec of
                   PStr s \<Rightarrow> sanitize_strings ev (e_is_mariadb eng) (COMMA_PATTERN_split s)
                 | PList xs \<Rightarrow> sanitize_items ev (e_is_mariadb eng) xs
                 | PTuple xs \<Rightarrow> sanitize_items ev (e_is_mariadb eng) xs
                 | _ \<Rightarrow> Inl (ValidationError ''Fields must be a string, list, or tuple'')) of
             Inl e \<Rightarrow> Inl e
           | Inr sanitized_field_list \<Rightarrow> parse_items ev eng sanitized_field_list)"

section \<open>Entity and column permissions\<close>

definition validate_doctype :: "string \<Rightarrow> error + unit" where
  "validate_doctype doctype =
     (if re_match TABLE_NAME_PATTERN doctype then Inr ()
      else Inl (ValidationError (''Invalid DocType: '' @ doctype)))"

definition check_read_permission :: "env \<Rightarrow> engine \<Rightarrow> error + unit" where
  "check_read_permission ev eng =
     (if \<not> has_permission ev (e_doctype eng) ''select'' (e_user eng) (e_parent_doctype eng)
         \<and> \<not> has_permission ev (e_doctype eng) ''read'' (e_user eng) (e_parent_doctype eng)
      then Inl (PermissionError (''Insufficient Permission for '' @ e_doctype eng))
      else Inr ())"

definition get_permission_type :: "env \<Rightarrow> engine \<Rightarrow> string \<Rightarrow> string" where
  "get_permission_type ev eng doctype =
     (if only_has_select_perm ev doctype (e_user eng) then ''select'' else ''read'')"

fun hashable :: "pyobj \<Rightarrow> bool" where
  "hashable (PList xs) = False"
| "hashable (PSet xs) = False"
| "hashable (PDict kvs) = False"
| "hashable (PTuple xs) = list_all hashable xs"
| "hashable other = True"

definition field_permission :: "env \<Rightarrow> engine \<Rightarrow> string list \<Rightarrow> pyobj \<Rightarrow> error + pyobj list" where
  \<comment> \<open>one turn of the loop of \<open>apply_field_permissions\<close>: what the field adds to \<open>allowed_fields\<close>.
      A set made from a list keeps each name once, in an order Python does not fix: \<open>remdups\<close>.\<close>
  "field_permission ev eng permitted_fields_set field =
     (case field of
        ChildTableField doctype fieldname parent_doctype parent_fieldname alias \<Rightarrow>
          (let permitted_child_fields_set =
                 get_permitted_fields ev doctype (Some parent_doctype) (get_permission_type ev eng doctype)
           in if fieldname \<in> set permitted_child_fields_set then Inr [field] else Inr [])
      | LinkTableField doctype fieldname parent_doctype link_fieldname alias \<Rightarrow>
          (if link_fieldname \<in> set permitted_fields_set then Inr [field] else Inr [])
      | ChildQuery None \<Rightarrow> Inl (AttributeError ''doctype'')
      | ChildQuery (Some (fieldname, child_fields, parent_doctype, doctype)) \<Rightarrow>
          (let permitted_child_fields_set =
                 get_permitted_fields ev doctype (Some parent_doctype) (get_permission_type ev eng doctype)
           in if \<not> list_all hashable child_fields then Inl (TypeError ''unhashable type'')
              else (let kept = filter (\<lambda>f. f \<in> set (map PStr permitted_child_fields_set)) child_fields
                    in if kept \<noteq> []
                       then Inr [ChildQuery (Some (fieldname, kept, parent_doctype, doctype))]
                       else Inr []))
      | FieldObj t name alias \<Rightarrow>
          (if name = ''*''
           then parse_fields ev eng (PList (map PStr (remdups permitted_fields_set)))
           else if name \<in> set permitted_fields_set then Inr [field]
           else if alias_or_None alias \<noteq> None \<and> name \<in> set permitted_fields_set then Inr [field]
           else Inr [])
      | PseudoColumnMapper s \<Rightarrow> Inr [field]
      | _ \<Rightarrow> Inr [])"

fun filter_permitted :: "env \<Rightarrow> engine \<Rightarrow> string list \<Rightarrow> pyobj list \<Rightarrow> error + pyobj list" where
  "filter_permitted ev eng permitted [] = Inr []"
| "filter_permitted ev eng permitted (field # rest) =
     (case field_permission ev eng permitted field of
        Inl e \<Rightarrow> Inl e
      | Inr kept \<Rightarrow>
          (case filter_permitted ev eng permitted rest of
             Inl e \<Rightarrow> Inl e
           | Inr others \<Rightarrow> Inr (kept @ others)))"

definition apply_field_permissions :: "env \<Rightarrow> engine \<Rightarrow> error + pyobj list" where
  "apply_field_permissions ev eng =
     filter_permitted ev eng
       (get_permitted_fields ev (e_doctype eng) (e_parent_doctype eng)
          (get_permission_type ev eng (e_doctype eng)))
       (e_fields eng)"

definition select_one :: "query \<Rightarrow> pyobj \<Rightarrow> query" where
  \<comment> \<open>one turn of the loop that closes \<open>apply_fields\<close>\<close>
  "select_one q field =
     (if is_DynamicTableField field then apply_select field q
      else if is_ChildQuery field then q\<lparr>q_child_queries := q_child_queries q @ [field]\<rparr>
      else q_select q field)"

definition apply_fields :: "env \<Rightarrow> engine \<Rightarrow> pyobj \<Rightarrow> error + engine" where
  "apply_fields ev eng field_spec =
     (case parse_fields ev eng field_spec of
        Inl e \<Rightarrow> Inl e
      | Inr parsed \<Rightarrow>
          (case (if e_apply_permissions eng
                 then apply_field_permissions ev (eng\<lparr>e_fields := parsed\<rparr>)
                 else Inr parsed) of
             Inl e \<Rightarrow> Inl e
           | Inr fs \<Rightarrow>
               (let fs = (if fs = [] then [FieldObj (e_table eng) ''name'' None] else fs)
                in Inr (eng\<lparr>e_fields := fs,
                          e_query := foldl select_one ((e_query eng)\<lparr>q_child_queries := []\<rparr>) fs\<rparr>))))"

section \<open>Filters\<close>

definition func_in :: "pyobj \<Rightarrow> pyobj \<Rightarrow> error + pyobj" where
  \<comment> \<open>Modelled from the spec: the entry \<open>in\<close> of \<open>OPERATOR_MAP\<close>, which is not among the sources; the
      spec has it build the \<open>IN\<close> predicate over the values.\<close>
  "func_in key vals = Inr (IsInCrit key vals)"

definition func_not_in :: "pyobj \<Rightarrow> pyobj \<Rightarrow> error + pyobj" where
  \<comment> \<open>Modelled from the spec: the entry \<open>not in\<close> of \<open>OPERATOR_MAP\<close>, which is not among the sources;
      the spec has it build the \<open>NOT IN\<close> predicate over the values.\<close>
  "func_not_in key vals = Inr (NotInCrit key vals)"

definition NESTED_SET_OPERATORS :: "string list" where
  \<comment> \<open>Modelled from the spec: \<open>NESTED_SET_OPERATORS\<close> of \<open>frappe.database.operator_map\<close> is not among
      the sources; the spec names these five hierarchy operators.\<close>
  "NESTED_SET_OPERATORS =
     [''descendants of'', ''ancestors of'', ''descendants of (inclusive)'',
      ''not descendants of'', ''not ancestors of'']"

definition sql_less :: "int option \<Rightarrow> int option \<Rightarrow> bool" where
  \<comment> \<open>a row passes \<open>WHERE a < b\<close> when the comparison is true; with a NULL on either side it is not\<close>
  "sql_less a b = (case (a, b) of (Some x, Some y) \<Rightarrow> x < y | _ \<Rightarrow> False)"

definition rows_by_lft :: "(string \<times> int option \<times> int option) list \<Rightarrow> string list" where
  \<comment> \<open>the names of the rows, by ascending \<open>lft\<close>\<close>
  "rows_by_lft rows =
     map snd (sort_key fst (concat (map (\<lambda>(n, l, r). case l of Some i \<Rightarrow> [(i, n)] | None \<Rightarrow> []) rows)))"

definition get_nested_set_hierarchy_result :: "env \<Rightarrow> string \<Rightarrow> pyobj \<Rightarrow> string \<Rightarrow> pyobj list" where
  "get_nested_set_hierarchy_result ev doctype name hierarchy =
     (let rows = db_rows ev doctype;
          (lft, rgt) = (case filter (\<lambda>(n, l, r). PStr n = name) rows of
                          [] \<Rightarrow> (None, None)
                        | (n, l, r) # others \<Rightarrow> (l, r))
      in if hierarchy \<in> set [''descendants of'', ''not descendants of'', ''descendants of (inclusive)'']
         then (let result = map PStr (rows_by_lft
                              (filter (\<lambda>(n, l, r). sql_less lft l \<and> sql_less r rgt) rows))
               in if hierarchy = ''descendants of (inclusive)'' then result @ [name] else result)
         else map PStr (rev (rows_by_lft
                              (filter (\<lambda>(n, l, r). sql_less l lft \<and> sql_less rgt r) rows))))"

definition validate_and_prepare_filter_field ::
    "env \<Rightarrow> engine \<Rightarrow> pyobj \<Rightarrow> string option \<Rightarrow> error + (pyobj \<times> engine)" where
  "validate_and_prepare_filter_field ev eng field doctype =
     (case field of
        PStr s \<Rightarrow>
          (let safe = Inr (FieldObj (DocType (case doctype of Some d \<Rightarrow> d | None \<Rightarrow> e_doctype eng)) s None, eng)
           in if SPECIAL_CHAR_PATTERN_search s
              then (case DynamicTableField_parse ev s (e_doctype eng) of
                      Inl e \<Rightarrow> Inl e
                    | Inr (Some dynamic) \<Rightarrow>
                        Inr (dynamic_field dynamic,
                             eng\<lparr>e_query := apply_join dynamic (e_query eng)\<rparr>)
                    | Inr None \<Rightarrow>
                        if \<not> re_match ALLOWED_SQL_FIELD_PATTERN s
                        then Inl (PermissionError (''Invalid filter field format: '' @ s))
                        else safe)
              else safe)
      | _ \<Rightarrow> Inr (field, eng))"

fun obj_name :: "pyobj \<Rightarrow> error + string" where
  \<comment> \<open>the attribute \<open>name\<close>; of the classes written out here only a field has one\<close>
  "obj_name (FieldObj t n a) = Inr n"
| "obj_name other = Inl (AttributeError ''name'')"

definition implicit_child_join :: "env \<Rightarrow> engine \<Rightarrow> string option \<Rightarrow> engine" where
  \<comment> \<open>the implicit join of \<open>_apply_filter\<close> when a child table is referenced\<close>
  "implicit_child_join ev eng doctype =
     (case doctype of
        None \<Rightarrow> eng
      | Some d \<Rightarrow>
          if d \<noteq> e_doctype eng \<and> meta_istable ev d \<and> \<not> is_joined (e_query eng) (DocType d)
          then eng\<lparr>e_query := left_join_on (e_query eng) (DocType d)
                 (AndCrit (EqCrit (FieldObj (DocType d) ''parent'' None)
                                  (FieldObj (e_table eng) ''name'' None))
                          (EqCrit (FieldObj (DocType d) ''parenttype'' None)
                                  (PStr (e_doctype eng))))\<rparr>
          else eng)"

definition blank_if_empty :: "pyobj \<Rightarrow> pyobj" where
  \<comment> \<open>an empty list, tuple or set becomes \<open>("",)\<close>\<close>
  "blank_if_empty v =
     (if \<not> truthy v \<and> (is_list_or_tuple v \<or> (case v of PSet xs \<Rightarrow> True | _ \<Rightarrow> False))
      then PTuple [PStr []] else v)"

definition nested_set_criterion ::
    "env \<Rightarrow> engine \<Rightarrow> pyobj \<Rightarrow> pyobj \<Rightarrow> pyobj \<Rightarrow> string \<Rightarrow> error + pyobj" where
  \<comment> \<open>the branch of \<open>_apply_filter\<close> for the hierarchy operators: the predicate it gives to \<open>where\<close>\<close>
  "nested_set_criterion ev eng field fld v hierarchy =
     (case (case field of PStr s \<Rightarrow> Inr s | _ \<Rightarrow> obj_name fld) of
        Inl e \<Rightarrow> Inl e
      | Inr original_field_name \<Rightarrow>
          (let ref_doctype =
                 (case meta_get_field ev (e_doctype eng) original_field_name of
                    Some df \<Rightarrow> df_options df
                  | None \<Rightarrow> e_doctype eng);
               nodes = get_nested_set_hierarchy_result ev ref_doctype v hierarchy
           in case OPERATOR_MAP ev
                     (if hierarchy \<in> set [''not ancestors of'', ''not descendants of'']
                      then ''not in'' else ''in'') of
                None \<Rightarrow> Inl (KeyError ''in'')
              | Some operator_fn \<Rightarrow>
                  operator_fn fld (if nodes = [] then PTuple [PStr []] else PList nodes)))"

definition filter_criterion ::
    "env \<Rightarrow> engine \<Rightarrow> pyobj \<Rightarrow> pyobj \<Rightarrow> pyobj \<Rightarrow> pyobj \<Rightarrow> error + pyobj" where
  \<comment> \<open>\<open>_apply_filter\<close> from the test of the operator on: the predicate it gives to \<open>where\<close>\<close>
  "filter_criterion ev eng field fld v operator =
     (case operator of
        PStr op \<Rightarrow>
          if op \<in> set NESTED_SET_OPERATORS then nested_set_criterion ev eng field fld v op
          else (case OPERATOR_MAP ev (casefold op) of
                  None \<Rightarrow> Inl (KeyError (casefold op))
                | Some operator_fn \<Rightarrow>
                    if v = PNone \<and> is_Field fld then Inr (IsNullCrit fld)
                    else operator_fn fld v)
      | _ \<Rightarrow>
          if \<not> hashable operator then Inl (TypeError ''unhashable type'')
          else Inl (AttributeError ''casefold''))"

definition apply_filter ::
    "env \<Rightarrow> engine \<Rightarrow> pyobj \<Rightarrow> pyobj \<Rightarrow> pyobj \<Rightarrow> string option \<Rightarrow> error + engine" where
  \<comment> \<open>\<open>_apply_filter(field, value, operator, doctype)\<close>; a falsy \<open>doctype\<close> is \<open>None\<close> here\<close>
  "apply_filter ev eng field val operator doctype =
     (case validate_and_prepare_filter_field ev eng field doctype of
        Inl e \<Rightarrow> Inl e
      | Inr (fld, eng) \<Rightarrow>
          (let eng = implicit_child_join ev eng doctype
           in case convert_to_value ev val of
                Inl e \<Rightarrow> Inl e
              | Inr v \<Rightarrow>
                  (case filter_criterion ev eng field fld (blank_if_empty v) operator of
                     Inl e \<Rightarrow> Inl e
                   | Inr c \<Rightarrow> Inr (eng\<lparr>e_query := q_where (e_query eng) c\<rparr>))))"

fun apply_dict_filters :: "env \<Rightarrow> engine \<Rightarrow> (pyobj \<times> pyobj) list \<Rightarrow> error + engine" where
  "apply_dict_filters ev eng [] = Inr eng"
| "apply_dict_filters ev eng ((field, val) # rest) =
     (case (if is_list_or_tuple val
            then (case seq_items val of
                    [operator, v] \<Rightarrow> Inr (operator, v)
                  | _ \<Rightarrow> Inl (ValueError ''values to unpack''))
            else Inr (PStr ''='', val)) of
        Inl e \<Rightarrow> Inl e
      | Inr (operator, v) \<Rightarrow>
          (case apply_filter ev eng field v operator None of
             Inl e \<Rightarrow> Inl e
           | Inr eng \<Rightarrow> apply_dict_filters ev eng rest))"

definition doctype_arg :: "pyobj \<Rightarrow> error + string option" where
  \<comment> \<open>the entity of a four-element filter: a string, or a falsy object, which \<open>_apply_filter\<close> treats
      as no entity. Any other object fails in the calls outside this file that receive it.\<close>
  "doctype_arg d =
     (case d of
        PStr s \<Rightarrow> Inr (if s = [] then None else Some s)
      | _ \<Rightarrow> if truthy d then Inl (TypeError ''doctype'') else Inr None)"

definition apply_list_filters :: "env \<Rightarrow> engine \<Rightarrow> pyobj list \<Rightarrow> error + engine" where
  "apply_list_filters ev eng flt =
     (case flt of
        [field, val] \<Rightarrow> apply_filter ev eng field val (PStr ''='') None
      | [field, operator, val] \<Rightarrow> apply_filter ev eng field val operator None
      | [doctype, field, operator, val] \<Rightarrow>
          (case doctype_arg doctype of
             Inl e \<Rightarrow> Inl e
           | Inr d \<Rightarrow> apply_filter ev eng field val operator d)
      | _ \<Rightarrow> Inl (ValueError ''Unknown filter format''))"

fun convert_all :: "env \<Rightarrow> pyobj list \<Rightarrow> error + pyobj list" where
  "convert_all ev [] = Inr []"
| "convert_all ev (x # xs) =
     (case convert_to_value ev x of
        Inl e \<Rightarrow> Inl e
      | Inr v \<Rightarrow> (case convert_all ev xs of Inl e \<Rightarrow> Inl e | Inr vs \<Rightarrow> Inr (v # vs)))"

fun apply_filters :: "env \<Rightarrow> engine \<Rightarrow> pyobj \<Rightarrow> error + engine"
  and apply_filters_each :: "env \<Rightarrow> engine \<Rightarrow> pyobj list \<Rightarrow> error + engine" where
  "apply_filters ev eng filters =
     (if filters = PNone then Inr eng
      else if is_FilterValue ev filters
      then (case convert_to_value ev filters of
              Inl e \<Rightarrow> Inl e
            | Inr v \<Rightarrow> apply_dict_filters ev eng [(PStr ''name'', v)])
      else if is_Criterion filters then Inr (eng\<lparr>e_query := q_where (e_query eng) filters\<rparr>)
      else (case filters of
              PDict kvs \<Rightarrow> apply_dict_filters ev eng kvs
            | PList items \<Rightarrow>
                if list_all (is_FilterValue ev) items \<and> items \<noteq> []
                then (case convert_all ev items of
                        Inl e \<Rightarrow> Inl e
                      | Inr vs \<Rightarrow> apply_dict_filters ev eng [(PStr ''name'', PTuple [PStr ''in'', PTuple vs])])
                else apply_filters_each ev eng items
            | PTuple items \<Rightarrow>
                if list_all (is_FilterValue ev) items \<and> items \<noteq> []
                then (case convert_all ev items of
                        Inl e \<Rightarrow> Inl e
                      | Inr vs \<Rightarrow> apply_dict_filters ev eng [(PStr ''name'', PTuple [PStr ''in'', PTuple vs])])
                else apply_filters_each ev eng items
            | _ \<Rightarrow> Inl (ValueError ''Unknown filter type'')))"
| "apply_filters_each ev eng [] = Inr eng"
| "apply_filters_each ev eng (flt # rest) =
     (case (if is_FilterValue ev flt \<or> is_Criterion flt \<or> is_dict flt then apply_filters ev eng flt
            else if is_list_or_tuple flt then apply_list_filters ev eng (seq_items flt)
            else Inl (ValueError ''Unknown filter type'')) of
        Inl e \<Rightarrow> Inl e
      | Inr eng \<Rightarrow> apply_filters_each ev eng rest)"

section \<open>Ordering and grouping\<close>

definition validate_order_by_declaration :: "string \<Rightarrow> error + unit" where
  \<comment> \<open>one turn of the loop of \<open>_validate_order_by\<close>\<close>
  "validate_order_by_declaration declaration =
     (let order_by = py_strip declaration
      in if order_by = [] then Inr ()
         else (case py_split_ws order_by of
                 [] \<Rightarrow> Inl (IndexError ''list index out of range'')
               | field_name # rest \<Rightarrow>
                   (let direction = (case rest of [] \<Rightarrow> None | d # ds \<Rightarrow> Some (py_lower d))
                    in if \<not> isdigit field_name \<and> \<not> re_match ALLOWED_SQL_FIELD_PATTERN field_name
                       then Inl (PermissionError (''Invalid field format in Order By: '' @ field_name))
                       else (case direction of
                               None \<Rightarrow> Inr ()
                             | Some d \<Rightarrow>
                                 if d \<noteq> [] \<and> d \<notin> set [''asc'', ''desc'']
                                 then Inl (ValueError ''Invalid direction in Order By'')
                                 else Inr ()))))"

fun validate_order_by_declarations :: "string list \<Rightarrow> error + unit" where
  "validate_order_by_declarations [] = Inr ()"
| "validate_order_by_declarations (d # ds) =
     (case validate_order_by_declaration d of
        Inl e \<Rightarrow> Inl e
      | Inr u \<Rightarrow> validate_order_by_declarations ds)"

definition validate_order_by :: "pyobj \<Rightarrow> error + unit" where
  "validate_order_by order_by =
     (case order_by of
        PStr s \<Rightarrow> validate_order_by_declarations (py_split '','' s)
      | _ \<Rightarrow> Inl (TypeError ''Order By must be a string''))"

definition order_by_declaration :: "query \<Rightarrow> string \<Rightarrow> query" where
  \<comment> \<open>one turn of the loop of \<open>apply_order_by\<close>, which splits at single spaces\<close>
  "order_by_declaration q declaration =
     (let order_by = py_strip declaration
      in if order_by = [] then q
         else (case py_split '' '' order_by of
                 [] \<Rightarrow> q
               | order_field # rest \<Rightarrow>
                   q\<lparr>q_orderbys := q_orderbys q @
                       [(order_field,
                         if (case rest of [] \<Rightarrow> False | d # ds \<Rightarrow> py_lower d = ''asc'')
                         then Asc else Desc)]\<rparr>))"

definition apply_order_by :: "env \<Rightarrow> engine \<Rightarrow> pyobj \<Rightarrow> error + engine" where
  "apply_order_by ev eng order_by =
     (if \<not> truthy order_by \<or> order_by = PStr (DefaultOrderBy ev) then Inr eng
      else (case validate_order_by order_by of
              Inl e \<Rightarrow> Inl e
            | Inr u \<Rightarrow>
                (case order_by of
                   PStr s \<Rightarrow>
                     Inr (eng\<lparr>e_query := foldl order_by_declaration (e_query eng) (py_split '','' s)\<rparr>)
                 | _ \<Rightarrow> Inr eng)))"

fun validate_group_by_parts :: "string list \<Rightarrow> error + unit" where
  "validate_group_by_parts [] = Inr ()"
| "validate_group_by_parts (part # parts) =
     (let field_name = py_strip part
      in if field_name = [] then validate_group_by_parts parts
         else if isdigit field_name then validate_group_by_parts parts
         else if \<not> re_match ALLOWED_SQL_FIELD_PATTERN field_name
         then Inl (PermissionError (''Invalid field format in Group By: '' @ field_name))
         else validate_group_by_parts parts)"

definition validate_group_by :: "pyobj \<Rightarrow> error + unit" where
  "validate_group_by group_by =
     (case group_by of
        PStr s \<Rightarrow> validate_group_by_parts (COMMA_PATTERN_split s)
      | _ \<Rightarrow> Inl (TypeError ''Group By must be a string''))"

section \<open>Row permissions\<close>

definition str_truthy :: "string option \<Rightarrow> bool" where
  \<comment> \<open>the truth value of a string or \<open>None\<close>\<close>
  "str_truthy x = (case x of None \<Rightarrow> False | Some s \<Rightarrow> s \<noteq> [])"

definition requires_owner_constraint :: "role_permissions \<Rightarrow> bool" where
  \<comment> \<open>the \<open>None\<close> of the bare \<open>return\<close>s is \<open>False\<close>\<close>
  "requires_owner_constraint rp =
     (if \<not> rp_has_if_owner_enabled rp then False
      else if rp_if_owner rp = [] then False
      else if rp_select rp \<and> ''select'' \<notin> set (rp_if_owner rp) then False
      else if rp_read rp \<and> ''read'' \<notin> set (rp_if_owner rp) then False
      else True)"

definition get_doctype_link_fields :: "env \<Rightarrow> engine \<Rightarrow> link_field list" where
  "get_doctype_link_fields ev eng =
     \<lparr> lf_fieldname = ''name'', lf_options = e_doctype eng, lf_ignore_user_permissions = False \<rparr>
       # meta_get_link_fields ev (e_doctype eng)"

fun permitted_docs :: "engine \<Rightarrow> link_field \<Rightarrow> user_permission list \<Rightarrow> error + string list" where
  \<comment> \<open>the loop that fills \<open>docs\<close>. The engine has no attribute \<open>reference_doctype\<close>: no method of
      the class sets it, so reading it raises.\<close>
  "permitted_docs eng df [] = Inr []"
| "permitted_docs eng df (permission # rest) =
     (case (if \<not> str_truthy (up_applicable_for permission) then Inr [up_doc permission]
            else if lf_fieldname df = ''name'' then Inl (AttributeError ''reference_doctype'')
            else if up_applicable_for permission = Some (e_doctype eng) then Inr [up_doc permission]
            else Inr []) of
        Inl e \<Rightarrow> Inl e
      | Inr ds \<Rightarrow> (case permitted_docs eng df rest of Inl e \<Rightarrow> Inl e | Inr ds2 \<Rightarrow> Inr (ds @ ds2)))"

definition user_permission_condition :: "env \<Rightarrow> engine \<Rightarrow> string \<Rightarrow> string list \<Rightarrow> pyobj" where
  \<comment> \<open>the condition appended for a link field with permitted documents\<close>
  "user_permission_condition ev eng field_name docs =
     (if apply_strict_user_permissions ev
      then IsInCrit (FieldObj (e_table eng) field_name None) (PList (map PStr docs))
      else OrCrit (IsNullCrit (FieldObj (e_table eng) field_name None))
                  (IsInCrit (FieldObj (e_table eng) field_name None) (PList (map PStr docs))))"

fun link_field_conditions ::
    "env \<Rightarrow> engine \<Rightarrow> (string \<times> user_permission list) list \<Rightarrow> link_field list \<Rightarrow> error + pyobj list" where
  \<comment> \<open>the loop over \<open>doctype_link_fields\<close>\<close>
  "link_field_conditions ev eng user_permissions [] = Inr []"
| "link_field_conditions ev eng user_permissions (df # rest) =
     (case (if lf_ignore_user_permissions df then Inr []
            else (case map_of user_permissions (lf_options df) of
                    None \<Rightarrow> Inr []
                  | Some user_permission_values \<Rightarrow>
                      if user_permission_values = [] then Inr []
                      else (case permitted_docs eng df user_permission_values of
                              Inl e \<Rightarrow> Inl e
                            | Inr docs \<Rightarrow>
                                if docs \<noteq> []
                                then Inr [user_permission_condition ev eng (lf_fieldname df) docs]
                                else Inr []))) of
        Inl e \<Rightarrow> Inl e
      | Inr cs \<Rightarrow>
          (case link_field_conditions ev eng user_permissions rest of
             Inl e \<Rightarrow> Inl e
           | Inr cs2 \<Rightarrow> Inr (cs @ cs2)))"

definition get_user_permission_conditions ::
    "env \<Rightarrow> engine \<Rightarrow> role_permissions \<Rightarrow> error + (pyobj list \<times> bool)" where
  \<comment> \<open>the pair \<open>(conditions, fetch_shared_docs)\<close>\<close>
  "get_user_permission_conditions ev eng rp =
     (if \<not> (rp_read rp \<or> rp_select rp) then Inr ([], False)
      else (let user_permissions = get_user_permissions ev (e_user eng)
            in if user_permissions = [] then Inr ([], False)
               else (case link_field_conditions ev eng user_permissions (get_doctype_link_fields ev eng) of
                       Inl e \<Rightarrow> Inl e
                     | Inr conditions \<Rightarrow> Inr (conditions, True))))"

definition get_permission_query_conditions :: "env \<Rightarrow> engine \<Rightarrow> pyobj list" where
  "get_permission_query_conditions ev eng =
     (let condition_methods = permission_hooks ev (e_doctype eng) @ permission_hooks ev ''*'';
          from_hooks = concat (map (\<lambda>method.
                          case method (e_user eng) (e_doctype eng) of
                            None \<Rightarrow> []
                          | Some c \<Rightarrow> if c = [] then [] else [RawCriterion c]) condition_methods);
          from_script = (case permission_script ev (e_doctype eng) of
                           None \<Rightarrow> []
                         | Some script \<Rightarrow>
                             (case script (e_user eng) of
                                None \<Rightarrow> []
                              | Some c \<Rightarrow> if c = [] then [] else [RawCriterion c]))
      in from_hooks @ from_script)"

definition permission_conditions :: "env \<Rightarrow> engine \<Rightarrow> error + (pyobj list \<times> bool)" where
  \<comment> \<open>\<open>add_permission_conditions\<close> up to the lookup of the shared documents: the values of its
      variables \<open>conditions\<close> and \<open>fetch_shared_docs\<close> there\<close>
  "permission_conditions ev eng =
     (let role_permissions = get_role_permissions ev (e_doctype eng) (e_user eng)
      in case (if requires_owner_constraint role_permissions
               then Inr ([EqCrit (FieldObj (e_table eng) ''owner'' None) (PStr (e_user eng))], True)
               else if rp_read role_permissions \<or> rp_select role_permissions
               then get_user_permission_conditions ev eng role_permissions
               else Inr ([], False)) of
           Inl e \<Rightarrow> Inl e
         | Inr (conditions, fetch_shared_docs) \<Rightarrow>
             Inr (conditions @ get_permission_query_conditions ev eng, fetch_shared_docs))"

definition add_permission_conditions :: "env \<Rightarrow> engine \<Rightarrow> error + engine" where
  "add_permission_conditions ev eng =
     (case permission_conditions ev eng of
        Inl e \<Rightarrow> Inl e
      | Inr (conditions, fetch_shared_docs) \<Rightarrow>
          (let shared_docs = (if fetch_shared_docs then get_shared ev (e_doctype eng) (e_user eng) else [])
           in if shared_docs \<noteq> []
              then (let shared_condition =
                          IsInCrit (FieldObj (e_table eng) ''name'' None) (PList (map PStr shared_docs))
                    in if conditions \<noteq> []
                       then Inr (eng\<lparr>e_query := q_where (e_query eng)
                                   (OrCrit (Criterion_all conditions) shared_condition)\<rparr>)
                       else Inr (eng\<lparr>e_query := q_where (e_query eng) shared_condition\<rparr>))
              else if conditions \<noteq> []
              then Inr (eng\<lparr>e_query := q_where (e_query eng) (Criterion_all conditions)\<rparr>)
              else Inr eng))"

section \<open>The query assembler\<close>

datatype table_arg = TableName string | TableObj table

record query_args =
  a_fields :: pyobj
  a_filters :: pyobj
  a_order_by :: pyobj
  a_group_by :: pyobj
  a_limit :: pyobj
  a_offset :: pyobj
  a_distinct :: bool
  a_for_update :: bool
  a_update :: bool
  a_into :: bool
  a_delete :: bool
  a_skip_locked :: bool
  a_wait :: bool
  a_ignore_permissions :: bool
  a_user :: "string option"
  a_parent_doctype :: "string option"

definition checked_count :: "string \<Rightarrow> pyobj \<Rightarrow> error + pyobj option" where
  \<comment> \<open>the test \<open>limit\<close> and \<open>offset\<close> go through; a \<open>bool\<close> is an \<open>int\<close> in Python\<close>
  "checked_count what n =
     (if \<not> truthy n then Inr None
      else (case n of
              PInt i \<Rightarrow> if i < 0 then Inl (TypeError (what @ '' must be a non-negative integer''))
                        else Inr (Some n)
            | PBool b \<Rightarrow> Inr (Some n)
            | _ \<Rightarrow> Inl (TypeError (what @ '' must be a non-negative integer''))))"

definition apply_options :: "query \<Rightarrow> query_args \<Rightarrow> error + query" where
  \<comment> \<open>\<open>get_query\<close> from \<open>limit\<close> to \<open>group_by\<close>\<close>
  "apply_options q args =
     (case checked_count ''Limit'' (a_limit args) of
        Inl e \<Rightarrow> Inl e
      | Inr lim \<Rightarrow>
     (case checked_count ''Offset'' (a_offset args) of
        Inl e \<Rightarrow> Inl e
      | Inr off \<Rightarrow>
     (let q = (case lim of None \<Rightarrow> q | Some n \<Rightarrow> q\<lparr>q_limit := Some n\<rparr>);
          q = (case off of None \<Rightarrow> q | Some n \<Rightarrow> q\<lparr>q_offset := Some n\<rparr>);
          q = (if a_distinct args then q\<lparr>q_distinct := True\<rparr> else q);
          q = (if a_for_update args
               then q\<lparr>q_for_update := Some (a_skip_locked args, \<not> a_wait args)\<rparr> else q)
      in if truthy (a_group_by args)
         then (case validate_group_by (a_group_by args) of
                 Inl e \<Rightarrow> Inl e
               | Inr u \<Rightarrow>
                   (case a_group_by args of
                      PStr g \<Rightarrow> Inr (q\<lparr>q_groupbys := q_groupbys q @ [g]\<rparr>)
                    | _ \<Rightarrow> Inr q))
         else Inr q)))"

definition apply_clauses :: "env \<Rightarrow> engine \<Rightarrow> query_args \<Rightarrow> error + engine" where
  \<comment> \<open>\<open>get_query\<close> from \<open>apply_filters\<close> to the return\<close>
  "apply_clauses ev eng args =
     (case apply_filters ev eng (a_filters args) of
        Inl e \<Rightarrow> Inl e
      | Inr eng \<Rightarrow>
     (case apply_order_by ev eng (a_order_by args) of
        Inl e \<Rightarrow> Inl e
      | Inr eng \<Rightarrow>
     (case apply_options (e_query eng) args of
        Inl e \<Rightarrow> Inl e
      | Inr q \<Rightarrow>
     (case (if e_apply_permissions eng then add_permission_conditions ev (eng\<lparr>e_query := q\<rparr>)
            else Inr (eng\<lparr>e_query := q\<rparr>)) of
        Inl e \<Rightarrow> Inl e
      | Inr eng \<Rightarrow> Inr (eng\<lparr>e_query := (e_query eng)\<lparr>q_immutable := True\<rparr>\<rparr>)))))"

definition acting_user :: "env \<Rightarrow> query_args \<Rightarrow> string" where
  \<comment> \<open>\<open>user or frappe.session.user\<close>\<close>
  "acting_user ev args =
     (case a_user args of
        None \<Rightarrow> session_user ev
      | Some u \<Rightarrow> if u = [] then session_user ev else u)"

definition resolve_table :: "env \<Rightarrow> table_arg \<Rightarrow> error + (table \<times> string)" where
  \<comment> \<open>the table and the entity name \<open>get_query\<close> sets from its first argument\<close>
  "resolve_table ev tbl =
     (case tbl of
        TableObj t \<Rightarrow> Inr (t, get_doctype_name ev t)
      | TableName n \<Rightarrow>
          (case validate_doctype n of Inl e \<Rightarrow> Inl e | Inr u \<Rightarrow> Inr (DocType n, n)))"

definition init_engine :: "env \<Rightarrow> table \<Rightarrow> string \<Rightarrow> query_args \<Rightarrow> engine" where
  \<comment> \<open>the attributes of the engine once the table is resolved; the query is the one of the
      select mode, which the other modes replace\<close>
  "init_engine ev t doctype args =
     \<lparr> e_doctype = doctype, e_table = t, e_user = acting_user ev args,
       e_parent_doctype = a_parent_doctype args,
       e_apply_permissions = (\<not> a_ignore_permissions args),
       e_is_mariadb = (db_type ev = ''mariadb''),
       e_fields = [], e_query = new_query SelectMode t \<rparr>"

definition get_query :: "env \<Rightarrow> table_arg \<Rightarrow> query_args \<Rightarrow> error + query" where
  "get_query ev tbl args =
     (case resolve_table ev tbl of
           Inl e \<Rightarrow> Inl e
         | Inr (t, doctype) \<Rightarrow>
             (let eng0 = init_engine ev t doctype args
              in case (if e_apply_permissions eng0 then check_read_permission ev eng0 else Inr ()) of
                   Inl e \<Rightarrow> Inl e
                 | Inr u \<Rightarrow>
                     (case (if a_update args then Inr (eng0\<lparr>e_query := new_query UpdateMode t\<rparr>)
                            else if a_into args then Inr (eng0\<lparr>e_query := new_query InsertMode t\<rparr>)
                            else if a_delete args then Inr (eng0\<lparr>e_query := new_query DeleteMode t\<rparr>)
                            else apply_fields ev eng0 (a_fields args)) of
                        Inl e \<Rightarrow> Inl e
                      | Inr eng \<Rightarrow> map_sum id e_query (apply_clauses ev eng args))))"

section \<open>A small installation\<close>

text \<open>
  The definitions are evaluated on an installation with one entity \<open>Task\<close>: a data field
  \<open>status\<close>, link fields \<open>assigned_to\<close> (to \<open>User\<close>) and \<open>territory\<close> (to the tree \<open>Territory\<close>)
  and a child table \<open>items\<close> (of \<open>Task Item\<close>). The user \<open>alice\<close> may read tasks.
\<close>

definition example_meta :: "string \<Rightarrow> string \<Rightarrow> docfield option" where
  "example_meta doctype fieldname =
     (if doctype = ''Task'' then
        (if fieldname = ''assigned_to'' then Some \<lparr>df_fieldtype = ''Link'', df_options = ''User''\<rparr>
         else if fieldname = ''territory'' then Some \<lparr>df_fieldtype = ''Link'', df_options = ''Territory''\<rparr>
         else if fieldname = ''items'' then Some \<lparr>df_fieldtype = ''Table'', df_options = ''Task Item''\<rparr>
         else if fieldname = ''status'' then Some \<lparr>df_fieldtype = ''Data'', df_options = []\<rparr>
         else None)
      else None)"

definition example_env :: env where
  "example_env =
     \<lparr> db_type = ''mariadb'',
       session_user = ''alice'',
       get_doctype_name = (\<lambda>t. case t of DocType n \<Rightarrow> n),
       meta_get_field = example_meta,
       meta_istable = (\<lambda>d. d = ''Task Item''),
       meta_get_link_fields = (\<lambda>d. if d = ''Task''
          then [\<lparr>lf_fieldname = ''assigned_to'', lf_options = ''User'', lf_ignore_user_permissions = True\<rparr>,
                \<lparr>lf_fieldname = ''territory'', lf_options = ''Territory'', lf_ignore_user_permissions = False\<rparr>]
          else []),
       table_fields = [''Table'', ''Table MultiSelect''],
       has_permission = (\<lambda>d p u pd. d = ''Task'' \<and> u = ''alice'' \<and> p = ''read''),
       get_role_permissions = (\<lambda>d u.
          \<lparr>rp_read = (u = ''alice''), rp_select = False, rp_has_if_owner_enabled = False, rp_if_owner = []\<rparr>),
       get_permitted_fields = (\<lambda>d pd p. if d = ''Task'' then [''name'', ''status'', ''territory'']
                                        else if d = ''Task Item'' then [''qty''] else []),
       only_has_select_perm = (\<lambda>d u. False),
       get_user_permissions = (\<lambda>u. if u = ''alice''
          then [(''Territory'', [\<lparr>up_doc = ''East'', up_applicable_for = None\<rparr>,
                                 \<lparr>up_doc = ''West'', up_applicable_for = Some ''Lead''\<rparr>])]
          else []),
       apply_strict_user_permissions = False,
       get_shared = (\<lambda>d u. if d = ''Task'' \<and> u = ''alice'' then [''TASK-7''] else []),
       permission_hooks = (\<lambda>d. []),
       permission_script = (\<lambda>d. None),
       SqlFunctions = [''count'', ''sum'', ''max''],
       function_term = (\<lambda>s. Inr s),
       sqlparse_format = (\<lambda>s. s),
       MARIADB_SPECIFIC_COMMENT_sub = (\<lambda>s. s),
       is_FilterValue = (\<lambda>v. case v of PStr s \<Rightarrow> True | PInt i \<Rightarrow> True | PBool b \<Rightarrow> True | _ \<Rightarrow> False),
       convert_to_value = (\<lambda>v. Inr (case v of PBool b \<Rightarrow> PInt (if b then 1 else 0) | _ \<Rightarrow> v)),
       OPERATOR_MAP = (\<lambda>op. if op = ''in'' then Some func_in
                         else if op = ''not in'' then Some func_not_in
                         else if op = ''='' then Some (\<lambda>k v. Inr (EqCrit k v))
                         else None),
       DefaultOrderBy = ''KEEP_DEFAULT_ORDERING'',
       db_rows = (\<lambda>d. if d = ''Territory''
          then [(''All'', Some 1, Some 8), (''East'', Some 2, Some 7), (''North East'', Some 3, Some 4)]
          else []) \<rparr>"

definition example_args :: query_args where
  "example_args =
     \<lparr> a_fields = PNone, a_filters = PNone, a_order_by = PNone, a_group_by = PNone,
       a_limit = PNone, a_offset = PNone, a_distinct = False, a_for_update = False,
       a_update = False, a_into = False, a_delete = False, a_skip_locked = False,
       a_wait = True, a_ignore_permissions = True, a_user = None, a_parent_doctype = None \<rparr>"

definition example_engine :: engine where
  "example_engine = init_engine example_env (DocType ''Task'') ''Task'' example_args"

section \<open>Notions the properties are stated with\<close>

fun dynamic_table :: "pyobj \<Rightarrow> table" where
  \<comment> \<open>the target table of a dynamic field, which \<open>apply_join\<close> asks \<open>is_joined\<close> about\<close>
  "dynamic_table (ChildTableField doctype fieldname parent_doctype parent_fieldname alias) = DocType doctype"
| "dynamic_table (LinkTableField doctype fieldname parent_doctype link_fieldname alias) = DocType doctype"
| "dynamic_table other = DocType []"

definition joins_of :: "query \<Rightarrow> table \<Rightarrow> (table \<times> pyobj) list" where
  \<comment> \<open>the join clauses of the query for a table\<close>
  "joins_of q t = filter (\<lambda>j. fst j = t) (q_joins q)"

definition is_identifier :: "string \<Rightarrow> bool" where
  \<comment> \<open>a plain identifier: a non-empty string of letters, digits and underscores\<close>
  "is_identifier s = (s \<noteq> [] \<and> list_all is_word_char s)"

definition sanitizer_keeps :: "env \<Rightarrow> bool \<Rightarrow> string \<Rightarrow> bool" where
  \<comment> \<open>the comment strippers of \<open>_sanitize_field\<close> leave the string as it is\<close>
  "sanitizer_keeps ev is_mariadb s =
     (sqlparse_format ev s = s \<and> (is_mariadb \<longrightarrow> MARIADB_SPECIFIC_COMMENT_sub ev s = s))"

definition owner_permitted :: "env \<Rightarrow> engine \<Rightarrow> string list" where
  \<comment> \<open>the permitted fields of the owning entity, as \<open>apply_field_permissions\<close> asks for them\<close>
  "owner_permitted ev eng =
     get_permitted_fields ev (e_doctype eng) (e_parent_doctype eng)
       (get_permission_type ev eng (e_doctype eng))"

definition child_permitted :: "env \<Rightarrow> engine \<Rightarrow> string \<Rightarrow> string \<Rightarrow> string list" where
  \<comment> \<open>the permitted fields of a child entity under its parent\<close>
  "child_permitted ev eng doctype parent_doctype =
     get_permitted_fields ev doctype (Some parent_doctype) (get_permission_type ev eng doctype)"

fun column_permitted :: "env \<Rightarrow> engine \<Rightarrow> pyobj \<Rightarrow> bool" where
  \<comment> \<open>the entry of a field list is a permitted column: a plain column or the link column of a
      linked field among the permitted fields of the owning entity, the column of a child field
      or the sub-fields of a child query among those of the child entity\<close>
  "column_permitted ev eng (FieldObj t n a) = (n \<in> set (owner_permitted ev eng))"
| "column_permitted ev eng (LinkTableField d f p l a) = (l \<in> set (owner_permitted ev eng))"
| "column_permitted ev eng (ChildTableField d f p pf a) = (f \<in> set (child_permitted ev eng d p))"
| "column_permitted ev eng (ChildQuery None) = False"
| "column_permitted ev eng (ChildQuery (Some (fn, fs, p, d))) =
     list_all (\<lambda>f. f \<in> set (map PStr (child_permitted ev eng d p))) fs"
| "column_permitted ev eng other = False"

fun is_PseudoColumnMapper :: "pyobj \<Rightarrow> bool" where
  "is_PseudoColumnMapper (PseudoColumnMapper s) = True"
| "is_PseudoColumnMapper other = False"

definition selected :: "engine \<Rightarrow> pyobj list" where
  \<comment> \<open>the select list of the query the engine holds\<close>
  "selected eng = q_selects (e_query eng)"

definition dropped_fields_args :: query_args where
  \<comment> \<open>a call that asks, under permission enforcement, for two columns the caller may not read\<close>
  "dropped_fields_args =
     example_args\<lparr>a_ignore_permissions := False, a_fields := PStr ''secret, assigned_to.email''\<rparr>"

definition enforcing_engine :: engine where
  \<comment> \<open>the engine of a call on \<open>Task\<close> with permission enforcement\<close>
  "enforcing_engine =
     init_engine example_env (DocType ''Task'') ''Task'' (example_args\<lparr>a_ignore_permissions := False\<rparr>)"

definition predicates :: "engine \<Rightarrow> pyobj list" where
  \<comment> \<open>the predicates given to \<open>where\<close> so far\<close>
  "predicates eng = q_wheres (e_query eng)"

definition node_absent :: "env \<Rightarrow> string \<Rightarrow> pyobj \<Rightarrow> bool" where
  \<comment> \<open>no row of the tree table of the entity has this name\<close>
  "node_absent ev doctype name = list_all (\<lambda>row. PStr (fst row) \<noteq> name) (db_rows ev doctype)"

definition filter_ref_doctype :: "env \<Rightarrow> engine \<Rightarrow> string \<Rightarrow> string" where
  \<comment> \<open>\<open>ref_doctype\<close> of \<open>_apply_filter\<close>: the entity the field links to, or the owning entity\<close>
  "filter_ref_doctype ev eng original_field_name =
     (case meta_get_field ev (e_doctype eng) original_field_name of
        Some df \<Rightarrow> df_options df
      | None \<Rightarrow> e_doctype eng)"

definition applicable_docs :: "engine \<Rightarrow> user_permission list \<Rightarrow> string list" where
  \<comment> \<open>the permitted values that apply: those without \<open>applicable_for\<close>, and those applicable for
      the owning entity\<close>
  "applicable_docs eng vals =
     map up_doc (filter (\<lambda>p. \<not> str_truthy (up_applicable_for p)
                              \<or> up_applicable_for p = Some (e_doctype eng)) vals)"

definition is_user_permission_condition :: "env \<Rightarrow> engine \<Rightarrow> pyobj \<Rightarrow> bool" where
  \<comment> \<open>the condition of a link field of the entity with applicable permitted values: \<open>IN\<close> under
      the strict setting, \<open>IS NULL OR IN\<close> otherwise\<close>
  "is_user_permission_condition ev eng c =
     (\<exists>df vals.
        df \<in> set (get_doctype_link_fields ev eng)
        \<and> map_of (get_user_permissions ev (e_user eng)) (lf_options df) = Some vals
        \<and> applicable_docs eng vals \<noteq> []
        \<and> c = (if apply_strict_user_permissions ev
               then IsInCrit (FieldObj (e_table eng) (lf_fieldname df) None)
                      (PList (map PStr (applicable_docs eng vals)))
               else OrCrit (IsNullCrit (FieldObj (e_table eng) (lf_fieldname df) None))
                      (IsInCrit (FieldObj (e_table eng) (lf_fieldname df) None)
                         (PList (map PStr (applicable_docs eng vals))))))"

definition self_permissions_unscoped :: "env \<Rightarrow> engine \<Rightarrow> bool" where
  \<comment> \<open>no user permission looked up for a link field named \<open>name\<close> carries \<open>applicable_for\<close>\<close>
  "self_permissions_unscoped ev eng =
     list_all (\<lambda>df. lf_fieldname df = ''name'' \<and> \<not> lf_ignore_user_permissions df \<longrightarrow>
                      list_all (\<lambda>p. \<not> str_truthy (up_applicable_for p))
                        (case map_of (get_user_permissions ev (e_user eng)) (lf_options df) of
                           Some vals \<Rightarrow> vals | None \<Rightarrow> []))
       (get_doctype_link_fields ev eng)"

definition scoped_permission_env :: env where
  \<comment> \<open>the installation where the user also holds a user permission on a task that applies to
      one entity only\<close>
  "scoped_permission_env =
     example_env\<lparr> get_user_permissions := (\<lambda>u. if u = ''alice''
        then [(''Task'', [\<lparr>up_doc = ''TASK-1'', up_applicable_for = Some ''Project''\<rparr>]),
              (''Territory'', [\<lparr>up_doc = ''East'', up_applicable_for = None\<rparr>])]
        else []) \<rparr>"

definition owner_only_env :: env where
  \<comment> \<open>the installation with tasks readable by their owner only, and a hook that adds a condition\<close>
  "owner_only_env =
     example_env\<lparr> get_role_permissions := (\<lambda>d u.
                     \<lparr>rp_read = True, rp_select = False, rp_has_if_owner_enabled = True,
                      rp_if_owner = [''read'']\<rparr>),
                   permission_hooks := (\<lambda>d. if d = ''Task'' then [\<lambda>u dt. Some ''1 = 1''] else []) \<rparr>"

definition carried :: "query \<Rightarrow> query \<Rightarrow> bool" where
  \<comment> \<open>the later query has the select list of the earlier one, and join clauses with distinct
      tables if the earlier one has\<close>
  "carried q q' =
     (q_selects q' = q_selects q
      \<and> (distinct (map fst (q_joins q)) \<longrightarrow> distinct (map fst (q_joins q'))))"

section \<open>Joins\<close>

lemma is_joined_apply_join:
  "is_DynamicTableField f \<Longrightarrow> is_joined (apply_join f q) (dynamic_table f)"
  by (cases f) (auto simp: is_joined_def left_join_on_def Let_def)

lemma apply_join_joined:
  "is_DynamicTableField g \<Longrightarrow> is_joined q (dynamic_table g) \<Longrightarrow> apply_join g q = q"
  by (cases g) (auto simp: Let_def)

lemma joins_of_distinct:
  "distinct (map fst (q_joins q)) \<Longrightarrow> is_joined q t \<Longrightarrow> length (joins_of q t) = 1"
  unfolding joins_of_def is_joined_def
proof (induction "q_joins q" arbitrary: q)
  case Nil
  then show ?case by simp
next
  case (Cons j js)
  from Cons(2) have qj: "q_joins q = j # js" by simp
  show ?case
  proof (cases "fst j = t")
    case True
    with Cons(3) qj have "t \<notin> set (map fst js)" by auto
    then have "filter (\<lambda>j. fst j = t) js = []" by (auto simp: filter_empty_conv)
    with True qj show ?thesis by simp
  next
    case False
    have "length (filter (\<lambda>j. fst j = t) (q_joins (q\<lparr>q_joins := js\<rparr>))) = 1"
      using Cons(1)[of "q\<lparr>q_joins := js\<rparr>"] Cons(3,4) qj False by auto
    with False qj show ?thesis by simp
  qed
qed

lemma apply_join_distinct:
  "distinct (map fst (q_joins q)) \<Longrightarrow> distinct (map fst (q_joins (apply_join f q)))"
  by (cases f) (auto simp: is_joined_def left_join_on_def Let_def)

text \<open>
  C7. Within one build no two join clauses have the same target table: the query starts without
  joins, every join is added behind a test of \<open>is_joined\<close>, and every query \<open>get_query\<close> returns
  has join clauses with distinct tables (proved further down). On such a query, applying the
  join of a dynamic field, linked or child, and then the join of any dynamic field with the same
  target table again leaves the query as the first application made it, with exactly one join
  clause for that table: the second application is decided by the target table, not by the
  join predicate.
\<close>

theorem apply_join_idempotent:
  assumes "is_DynamicTableField f" and "is_DynamicTableField g"
    and "dynamic_table g = dynamic_table f"
    and "distinct (map fst (q_joins q))"
  shows "apply_join g (apply_join f q) = apply_join f q
       \<and> length (joins_of (apply_join g (apply_join f q)) (dynamic_table f)) = 1
       \<and> distinct (map fst (q_joins (apply_join f q)))"
proof -
  have j: "is_joined (apply_join f q) (dynamic_table g)"
    using assms(1,3) by (simp add: is_joined_apply_join)
  have e: "apply_join g (apply_join f q) = apply_join f q"
    using assms(2) j by (rule apply_join_joined)
  have d: "distinct (map fst (q_joins (apply_join f q)))"
    using assms(4) by (rule apply_join_distinct)
  have "length (joins_of (apply_join f q) (dynamic_table f)) = 1"
    using d is_joined_apply_join[OF assms(1)] by (rule joins_of_distinct)
  with e d show ?thesis by simp
qed

theorem apply_join_idempotent_witness:
  "is_DynamicTableField (ChildTableField ''Task Item'' ''qty'' ''Task'' None None)
   \<and> is_DynamicTableField (LinkTableField ''Task Item'' ''rate'' ''Task'' ''item'' None)
   \<and> dynamic_table (LinkTableField ''Task Item'' ''rate'' ''Task'' ''item'' None)
       = dynamic_table (ChildTableField ''Task Item'' ''qty'' ''Task'' None None)
   \<and> distinct (map fst (q_joins (new_query SelectMode (DocType ''Task''))))
   \<and> apply_join (LinkTableField ''Task Item'' ''rate'' ''Task'' ''item'' None)
        (apply_join (ChildTableField ''Task Item'' ''qty'' ''Task'' None None)
           (new_query SelectMode (DocType ''Task'')))
       = apply_join (ChildTableField ''Task Item'' ''qty'' ''Task'' None None)
           (new_query SelectMode (DocType ''Task''))
   \<and> length (joins_of
        (apply_join (LinkTableField ''Task Item'' ''rate'' ''Task'' ''item'' None)
           (apply_join (ChildTableField ''Task Item'' ''qty'' ''Task'' None None)
              (new_query SelectMode (DocType ''Task''))))
        (DocType ''Task Item'')) = 1"
  using apply_join_idempotent
    [of "ChildTableField ''Task Item'' ''qty'' ''Task'' None None"
        "LinkTableField ''Task Item'' ''rate'' ''Task'' ''item'' None"
        "new_query SelectMode (DocType ''Task'')"]
  by (simp add: new_query_def Let_def is_joined_def left_join_on_def joins_of_def)

section \<open>The order of the checks\<close>

text \<open>
  C6. Called with an entity name, \<open>get_query\<close> validates the name first: a name that does not
  match the table-name pattern ends the call with the error of \<open>validate_doctype\<close>, whatever the
  permission service and the other arguments are. With a valid name and permission enforcement
  requested, a caller with neither \<open>select\<close> nor \<open>read\<close> on the entity gets the permission error
  of the entity check, whatever the fields and filters are: no error of field or filter
  parsing can reach such a caller.
\<close>

theorem get_query_checks_in_order:
  "(\<not> re_match TABLE_NAME_PATTERN n \<longrightarrow>
      get_query ev (TableName n) args = Inl (ValidationError (''Invalid DocType: '' @ n)))
   \<and> (re_match TABLE_NAME_PATTERN n \<and> \<not> a_ignore_permissions args
        \<and> \<not> has_permission ev n ''select'' (acting_user ev args) (a_parent_doctype args)
        \<and> \<not> has_permission ev n ''read'' (acting_user ev args) (a_parent_doctype args) \<longrightarrow>
      get_query ev (TableName n) args = Inl (PermissionError (''Insufficient Permission for '' @ n)))"
  by (simp add: get_query_def resolve_table_def validate_doctype_def init_engine_def
        check_read_permission_def)

theorem get_query_checks_in_order_witness:
  "\<not> re_match TABLE_NAME_PATTERN ''Task; DROP TABLE x''
   \<and> get_query example_env (TableName ''Task; DROP TABLE x'') (example_args\<lparr>a_ignore_permissions := False\<rparr>)
       = Inl (ValidationError ''Invalid DocType: Task; DROP TABLE x'')
   \<and> re_match TABLE_NAME_PATTERN ''Task''
   \<and> \<not> has_permission example_env ''Task'' ''select'' ''bob'' None
   \<and> \<not> has_permission example_env ''Task'' ''read'' ''bob'' None
   \<and> get_query example_env (TableName ''Task'')
        (example_args\<lparr>a_ignore_permissions := False, a_user := Some ''bob'',
                       a_fields := PStr ''name; DROP TABLE x'',
                       a_filters := PDict [(PStr ''a.b.c'', PInt 1)]\<rparr>)
       = Inl (PermissionError ''Insufficient Permission for Task'')"
proof -
  have a: "\<not> re_match TABLE_NAME_PATTERN ''Task; DROP TABLE x''" by code_simp
  have b: "re_match TABLE_NAME_PATTERN ''Task''" by code_simp
  have c: "\<not> has_permission example_env ''Task'' ''select'' ''bob'' None"
    and d: "\<not> has_permission example_env ''Task'' ''read'' ''bob'' None"
    by (simp_all add: example_env_def)
  show ?thesis
    using a b c d
      get_query_checks_in_order
        [of "''Task; DROP TABLE x''" example_env "example_args\<lparr>a_ignore_permissions := False\<rparr>"]
      get_query_checks_in_order
        [of "''Task''" example_env
            "example_args\<lparr>a_ignore_permissions := False, a_user := Some ''bob'',
                           a_fields := PStr ''name; DROP TABLE x'',
                           a_filters := PDict [(PStr ''a.b.c'', PInt 1)]\<rparr>"]
    by (simp add: acting_user_def example_args_def)
qed

section \<open>The owner constraint\<close>

lemma hook_conditions_raw:
  "c \<in> set (get_permission_query_conditions ev eng) \<Longrightarrow> \<exists>s. c = RawCriterion s"
  by (auto simp: get_permission_query_conditions_def Let_def split: option.splits if_splits)

text \<open>
  C2. When the role permissions of the acting user require the owner constraint
  (\<open>requires_owner_constraint\<close>: if-owner enforcement is enabled, some permission type is held
  only as owner, and neither \<open>select\<close> nor \<open>read\<close> is held without it), the conditions of
  \<open>add_permission_conditions\<close> are the constraint \<open>owner == user\<close> followed by the raw conditions
  of the hooks and the script only, no user-permission condition among them, and the
  shared-record fallback is on: the predicate added to the query is the conjunction of these
  conditions, or its disjunction with the membership in the shared records when there are some.
\<close>

theorem owner_constraint_forced:
  assumes "requires_owner_constraint (get_role_permissions ev (e_doctype eng) (e_user eng))"
  shows "permission_conditions ev eng =
           Inr (EqCrit (FieldObj (e_table eng) ''owner'' None) (PStr (e_user eng))
                  # get_permission_query_conditions ev eng, True)
       \<and> list_all (\<lambda>c. \<exists>s. c = RawCriterion s) (get_permission_query_conditions ev eng)
       \<and> add_permission_conditions ev eng =
           Inr (eng\<lparr>e_query := q_where (e_query eng)
                  (let conditions = EqCrit (FieldObj (e_table eng) ''owner'' None) (PStr (e_user eng))
                                      # get_permission_query_conditions ev eng;
                       shared_docs = get_shared ev (e_doctype eng) (e_user eng)
                   in if shared_docs = [] then Criterion_all conditions
                      else OrCrit (Criterion_all conditions)
                             (IsInCrit (FieldObj (e_table eng) ''name'' None)
                                (PList (map PStr shared_docs))))\<rparr>)"
proof -
  have pc: "permission_conditions ev eng =
           Inr (EqCrit (FieldObj (e_table eng) ''owner'' None) (PStr (e_user eng))
                  # get_permission_query_conditions ev eng, True)"
    using assms by (simp add: permission_conditions_def Let_def)
  have raw: "list_all (\<lambda>c. \<exists>s. c = RawCriterion s) (get_permission_query_conditions ev eng)"
    by (simp add: list_all_iff hook_conditions_raw)
  show ?thesis
    using pc raw by (simp add: add_permission_conditions_def Let_def)
qed

theorem owner_constraint_forced_witness:
  "requires_owner_constraint (get_role_permissions owner_only_env (e_doctype example_engine) (e_user example_engine))
   \<and> permission_conditions owner_only_env example_engine =
       Inr ([EqCrit (FieldObj (DocType ''Task'') ''owner'' None) (PStr ''alice''), RawCriterion ''1 = 1''], True)
   \<and> map_sum id (\<lambda>e. q_wheres (e_query e)) (add_permission_conditions owner_only_env example_engine) =
       Inr [OrCrit (AndCrit (EqCrit (FieldObj (DocType ''Task'') ''owner'' None) (PStr ''alice''))
                            (RawCriterion ''1 = 1''))
                   (IsInCrit (FieldObj (DocType ''Task'') ''name'' None) (PList [PStr ''TASK-7'']))]"
proof -
  have r: "requires_owner_constraint
             (get_role_permissions owner_only_env (e_doctype example_engine) (e_user example_engine))"
    by (simp add: owner_only_env_def example_env_def requires_owner_constraint_def)
  have h: "get_permission_query_conditions owner_only_env example_engine = [RawCriterion ''1 = 1'']"
    by (simp add: get_permission_query_conditions_def owner_only_env_def example_env_def
          example_engine_def init_engine_def)
  have s: "get_shared owner_only_env ''Task'' ''alice'' = [''TASK-7'']"
    by (simp add: owner_only_env_def example_env_def)
  have t: "e_table example_engine = DocType ''Task''" "e_user example_engine = ''alice''"
    "e_doctype example_engine = ''Task''" "q_wheres (e_query example_engine) = []"
    by (simp_all add: example_engine_def init_engine_def acting_user_def example_args_def
          example_env_def new_query_def)
  show ?thesis
    using r owner_constraint_forced[OF r]
    by (simp add: h s t q_where_def Criterion_all_def Let_def)
qed

section \<open>A null value\<close>

lemma apply_join_wheres: "q_wheres (apply_join f q) = q_wheres q"
  by (cases f) (simp_all add: Let_def left_join_on_def)

lemma prepare_filter_field_wheres:
  "validate_and_prepare_filter_field ev eng field doctype = Inr (fld, eng1) \<Longrightarrow>
   q_wheres (e_query eng1) = q_wheres (e_query eng)"
  by (auto simp: validate_and_prepare_filter_field_def Let_def apply_join_wheres
        split: pyobj.splits sum.splits option.splits if_splits)

text \<open>
  C9. A filter whose field resolves to a column (a \<open>Field\<close> object) and whose value
  \<open>convert_to_value\<close> turns into \<open>None\<close> adds, under an operator of the operator table that is
  not a hierarchy operator, the predicate \<open>IS NULL\<close> on that column, not the operator's
  comparison with null.
\<close>

theorem none_value_is_null:
  assumes "validate_and_prepare_filter_field ev eng field doctype = Inr (FieldObj t n a, eng1)"
    and "convert_to_value ev val = Inr PNone"
    and "op \<notin> set NESTED_SET_OPERATORS"
    and "OPERATOR_MAP ev (casefold op) = Some operator_fn"
  shows "\<exists>eng'. apply_filter ev eng field val (PStr op) doctype = Inr eng'
           \<and> q_wheres (e_query eng') = q_wheres (e_query eng) @ [IsNullCrit (FieldObj t n a)]"
proof -
  have w: "q_wheres (e_query eng1) = q_wheres (e_query eng)"
    using assms(1) by (rule prepare_filter_field_wheres)
  show ?thesis
    using assms w
    by (cases doctype)
       (simp_all add: apply_filter_def filter_criterion_def blank_if_empty_def
          implicit_child_join_def Let_def q_where_def left_join_on_def)
qed

theorem none_value_is_null_witness:
  "validate_and_prepare_filter_field example_env example_engine (PStr ''status'') None
     = Inr (FieldObj (DocType ''Task'') ''status'' None, example_engine)
   \<and> convert_to_value example_env PNone = Inr PNone
   \<and> ''='' \<notin> set NESTED_SET_OPERATORS
   \<and> OPERATOR_MAP example_env (casefold ''='') = Some (\<lambda>k v. Inr (EqCrit k v))
   \<and> (\<exists>eng'. apply_filter example_env example_engine (PStr ''status'') PNone (PStr ''='') None = Inr eng'
         \<and> q_wheres (e_query eng') = [IsNullCrit (FieldObj (DocType ''Task'') ''status'' None)])"
proof -
  have a: "validate_and_prepare_filter_field example_env example_engine (PStr ''status'') None
             = Inr (FieldObj (DocType ''Task'') ''status'' None, example_engine)"
    by (simp add: validate_and_prepare_filter_field_def SPECIAL_CHAR_PATTERN_search_def
          is_word_char_def example_engine_def init_engine_def)
  have b: "convert_to_value example_env PNone = Inr PNone"
    by (simp add: example_env_def)
  have c: "''='' \<notin> set NESTED_SET_OPERATORS"
    by (simp add: NESTED_SET_OPERATORS_def)
  have d: "OPERATOR_MAP example_env (casefold ''='') = Some (\<lambda>k v. Inr (EqCrit k v))"
    by (simp add: example_env_def casefold_def lower_char_def)
  have e: "q_wheres (e_query example_engine) = []"
    by (simp add: example_engine_def init_engine_def new_query_def)
  show ?thesis
    using a b c d none_value_is_null[OF a b c d] by (simp add: e)
qed

section \<open>Column permissions\<close>

lemma rx_full_Alt: "rx_full (Alt a b) s = (rx_full a s \<or> rx_full b s)"
  by (induction s arbitrary: a b) simp_all

lemma rx_full_nullable_Seq: "nullable a \<Longrightarrow> rx_full b v \<Longrightarrow> rx_full (Seq a b) v"
  by (cases v) (simp_all add: rx_full_Alt)

lemma rx_full_Seq: "rx_full a u \<Longrightarrow> rx_full b v \<Longrightarrow> rx_full (Seq a b) (u @ v)"
proof (induction u arbitrary: a)
  case Nil
  then show ?case by (simp add: rx_full_nullable_Seq)
next
  case (Cons c u)
  then have "rx_full (Seq (deriv c a) b) (u @ v)" by simp
  then show ?case by (simp add: rx_full_Alt)
qed

lemma rx_full_Star_Atom: "list_all p s \<Longrightarrow> rx_full (Star (Atom p)) s"
proof (induction s)
  case Nil
  then show ?case by simp
next
  case (Cons c s)
  then have "rx_full (Seq One (Star (Atom p))) ([] @ s)"
    by (intro rx_full_Seq) simp_all
  with Cons show ?case by simp
qed

lemma rx_full_Plus_Atom: "s \<noteq> [] \<Longrightarrow> list_all p s \<Longrightarrow> rx_full (Plus (Atom p)) s"
proof (cases s)
  case Nil
  assume "s \<noteq> []"
  with Nil show ?thesis by simp
next
  case (Cons c cs)
  assume "list_all p s"
  with Cons have "rx_full (Atom p) [c]" and "rx_full (Star (Atom p)) cs"
    by (simp_all add: rx_full_Star_Atom)
  then have "rx_full (Seq (Atom p) (Star (Atom p))) ([c] @ cs)"
    by (rule rx_full_Seq)
  with Cons show ?thesis by (simp add: Plus_def)
qed

lemma identifier_allowed_field:
  assumes "is_identifier s"
  shows "re_match ALLOWED_FIELD_PATTERN s"
proof -
  have w: "rx_full (Plus (Atom is_word_char)) s"
    using assms by (simp add: is_identifier_def rx_full_Plus_Atom)
  have "rx_full qualified_name ([] @ s)"
    unfolding qualified_name_def
    by (rule rx_full_Seq) (simp_all add: Opt_def rx_full_Alt w)
  then have "rx_full (Seq qualified_name (as_alias Lit)) (s @ [])"
    by (intro rx_full_Seq) (simp_all add: as_alias_def Opt_def)
  then show ?thesis by (simp add: re_match_def ALLOWED_FIELD_PATTERN_def)
qed

lemma word_char_not_space: "is_word_char c \<Longrightarrow> \<not> is_space c"
  by (auto simp: is_word_char_def is_space_def Let_def)

lemma word_char_not_quote: "is_word_char c \<Longrightarrow> \<not> is_quote c"
  by (auto simp: is_word_char_def is_quote_def Let_def)

lemma lower_char_word: "is_word_char c \<Longrightarrow> is_word_char (lower_char c)"
  by (auto simp: is_word_char_def lower_char_def Let_def)

lemma startswith_set: "startswith s p \<Longrightarrow> set p \<subseteq> set s"
  by (induction s p rule: startswith.induct) auto

lemma contains_set: "contains s sub \<Longrightarrow> set sub \<subseteq> set s"
proof (induction s)
  case Nil
  then show ?case by simp
next
  case (Cons a s)
  from Cons.prems have "startswith (a # s) sub \<or> contains s sub" by simp
  then show ?case
  proof
    assume "startswith (a # s) sub"
    then show ?thesis by (rule startswith_set)
  next
    assume "contains s sub"
    then have "set sub \<subseteq> set s" by (rule Cons.IH)
    then show ?thesis by auto
  qed
qed

lemma identifier_strip: "is_identifier s \<Longrightarrow> py_strip s = s"
proof -
  assume a: "is_identifier s"
  then have 1: "dropWhile is_space s = s"
    by (cases s) (auto simp: is_identifier_def word_char_not_space)
  from a have "rev s \<noteq> []" and "\<not> is_space (hd (rev s))"
    by (auto simp: is_identifier_def hd_rev list_all_iff word_char_not_space)
  then have 2: "dropWhile is_space (rev s) = rev s"
    by (cases "rev s") auto
  show ?thesis by (simp add: py_strip_def 1 2)
qed

lemma identifier_no_char:
  "is_identifier s \<Longrightarrow> \<not> is_word_char c \<Longrightarrow> c \<in> set sub \<Longrightarrow> \<not> contains s sub"
  by (auto simp: is_identifier_def list_all_iff dest!: contains_set)

lemma identifier_lower: "is_identifier s \<Longrightarrow> is_identifier (map lower_char s)"
  by (auto simp: is_identifier_def list_all_iff lower_char_word)

lemma identifier_no_function: "is_identifier s \<Longrightarrow> \<not> has_function ev s"
proof -
  assume a: "is_identifier s"
  have p: "\<not> is_word_char CHR ''(''" by (simp add: is_word_char_def)
  have "\<not> contains s [CHR 0x60]"
    using a by (rule identifier_no_char[where c = "CHR 0x60"]) (simp_all add: is_word_char_def)
  moreover have "\<And>v. \<not> contains (map lower_char s) (v @ ''('')"
    using identifier_lower[OF a] p by (rule identifier_no_char[where c = "CHR ''(''"]) simp
  ultimately show ?thesis
    by (simp add: has_function_def SQL_FUNCTIONS_def casefold_def list_ex_iff)
qed

lemma identifier_not_dynamic: "is_identifier s \<Longrightarrow> DynamicTableField_parse ev s d = Inr None"
proof -
  assume a: "is_identifier s"
  have "\<not> contains s ''.''"
    using a by (rule identifier_no_char[where c = "CHR ''.''"]) (simp_all add: is_word_char_def)
  then show ?thesis by (simp add: DynamicTableField_parse_def)
qed

lemma identifier_field_name: "is_identifier s \<Longrightarrow> FIELD_PARSE_REGEX_match s = Some (None, s)"
proof -
  assume a: "is_identifier s"
  then have q: "opt_quote s = s"
    by (cases s) (auto simp: opt_quote_def is_identifier_def word_char_not_quote)
  from a have t: "takeWhile is_word_char s = s" and d: "dropWhile is_word_char s = []"
    by (auto simp: is_identifier_def list_all_iff)
  from a have ne: "s \<noteq> []" by (simp add: is_identifier_def)
  have e: "opt_quote [] = []" by (simp add: opt_quote_def)
  have 1: "field_name_tail s = Some s"
    by (simp add: field_name_tail_def q t d ne e)
  have 2: "table_prefix s = None"
    by (simp add: table_prefix_def q t d e)
  show ?thesis by (simp add: FIELD_PARSE_REGEX_match_def 1 2)
qed

lemma identifier_string_field:
  "is_identifier s \<Longrightarrow> parse_string_field eng s = Inr (FieldObj (e_table eng) s None)"
proof -
  assume a: "is_identifier s"
  have star: "s \<noteq> ''*''"
    using a by (auto simp: is_identifier_def is_word_char_def)
  have "\<not> contains (map lower_char s) '' as ''"
    using identifier_lower[OF a] by (rule identifier_no_char[where c = "CHR '' ''"]) (simp_all add: is_word_char_def)
  then show ?thesis
    by (simp add: parse_string_field_def star py_lower_def identifier_field_name[OF a] alias_or_None_def)
qed

lemma identifier_item:
  "is_identifier s \<Longrightarrow> parse_single_field_item ev eng (PStr s) = Inr (FieldObj (e_table eng) s None)"
  by (simp add: parse_single_field_item_def identifier_no_function identifier_not_dynamic
        identifier_string_field)

lemma identifier_sanitize:
  "is_identifier s \<Longrightarrow> sanitizer_keeps ev m s \<Longrightarrow> sanitize_field ev s m = Inr s"
  by (auto simp: sanitize_field_def validate_select_field_def identifier_allowed_field
        sanitizer_keeps_def identifier_strip Let_def)

lemma identifiers_sanitize_items:
  "list_all (\<lambda>s. is_identifier s \<and> sanitizer_keeps ev m s) names \<Longrightarrow>
   sanitize_items ev m (map PStr names) = Inr (map PStr names)"
  by (induction names) (simp_all add: identifier_sanitize)

lemma identifiers_parse_items:
  "list_all is_identifier names \<Longrightarrow>
   parse_items ev eng (map PStr names) = Inr (map (\<lambda>n. FieldObj (e_table eng) n None) names)"
  by (induction names) (simp_all add: identifier_item)

lemma identifiers_parse_fields:
  assumes "list_all (\<lambda>s. is_identifier s \<and> sanitizer_keeps ev (e_is_mariadb eng) s) names"
  shows "parse_fields ev eng (PList (map PStr names)) =
           Inr (map (\<lambda>n. FieldObj (e_table eng) n None) names)"
proof (cases "names = []")
  case True
  then show ?thesis by (simp add: parse_fields_def)
next
  case False
  from assms have "list_all is_identifier names" by (simp add: list_all_iff)
  with False assms show ?thesis
    by (simp add: parse_fields_def identifiers_sanitize_items identifiers_parse_items)
qed


lemma child_query_not_pseudo: "is_ChildQuery x \<Longrightarrow> \<not> is_PseudoColumnMapper x"
  by (cases x) simp_all

lemma child_queries_of_dict_kind:
  "child_queries_of_dict ev d kvs = Inr cqs \<Longrightarrow> list_all is_ChildQuery cqs"
proof (induction kvs arbitrary: cqs)
  case Nil
  then show ?case by simp
next
  case (Cons kv kvs)
  obtain k v where kv: "kv = (k, v)" by (cases kv)
  from Cons.prems kv obtain cq rest where
    1: "ChildQuery_init ev k (seq_items v) d = Inr cq" and
    2: "child_queries_of_dict ev d kvs = Inr rest" and
    3: "cqs = cq # rest"
    by (auto split: if_splits sum.splits)
  from 1 have "is_ChildQuery cq"
    by (auto simp: ChildQuery_init_def split: option.splits if_splits)
  with Cons.IH[OF 2] 3 show ?case by simp
qed

lemma dynamic_parse_kind:
  "DynamicTableField_parse ev s d = Inr (Some x) \<Longrightarrow> is_DynamicTableField x"
  by (auto simp: DynamicTableField_parse_def split: if_splits sum.splits list.splits option.splits)

lemma parse_string_field_kind:
  "parse_string_field eng s = Inr x \<Longrightarrow> is_Field x"
  by (auto simp: parse_string_field_def Let_def split: if_splits option.splits prod.splits)

lemma parse_single_no_pseudo:
  assumes "parse_single_field_item ev eng item = Inr parsed"
  shows "\<not> is_PseudoColumnMapper parsed
       \<and> (\<forall>xs. parsed = PList xs \<longrightarrow> list_all (\<lambda>x. \<not> is_PseudoColumnMapper x) xs)"
proof (cases "is_Criterion item")
  case True
  with assms have "parsed = item" by (simp add: parse_single_field_item_def)
  with True show ?thesis by (cases item) auto
next
  case False
  show ?thesis
  proof (cases item)
    case (PDict kvs)
    with assms False obtain cqs where c: "child_queries_of_dict ev (e_doctype eng) kvs = Inr cqs"
      and p: "parsed = PList cqs"
      by (cases "child_queries_of_dict ev (e_doctype eng) kvs")
         (auto simp: parse_single_field_item_def)
    have "list_all (\<lambda>x. \<not> is_PseudoColumnMapper x) cqs"
      using child_queries_of_dict_kind[OF c]
      by (auto simp: list_all_iff dest: child_query_not_pseudo)
    with p show ?thesis by simp
  next
    case (PStr s)
    from assms False PStr consider
        (f) "get_function_object ev s = Inr parsed"
      | (d) "DynamicTableField_parse ev s (e_doctype eng) = Inr (Some parsed)"
      | (p) "parse_string_field eng s = Inr parsed"
      by (auto simp: parse_single_field_item_def split: if_splits sum.splits option.splits)
    then show ?thesis
    proof cases
      case f
      then show ?thesis
        by (cases "function_term ev s") (auto simp: get_function_object_def)
    next
      case d
      from dynamic_parse_kind[OF d] show ?thesis by (cases parsed) auto
    next
      case p
      from parse_string_field_kind[OF p] show ?thesis by (cases parsed) auto
    qed
  qed (use assms False in \<open>auto simp: parse_single_field_item_def\<close>)
qed

lemma parse_items_no_pseudo:
  "parse_items ev eng items = Inr fs \<Longrightarrow> list_all (\<lambda>x. \<not> is_PseudoColumnMapper x) fs"
proof (induction items arbitrary: fs)
  case Nil
  then show ?case by simp
next
  case (Cons item items)
  from Cons.prems obtain parsed rest where
    1: "parse_single_field_item ev eng item = Inr parsed" and
    2: "parse_items ev eng items = Inr rest" and
    3: "fs = (case parsed of PList xs \<Rightarrow> xs | _ \<Rightarrow> if truthy parsed then [parsed] else []) @ rest"
    by (auto split: sum.splits)
  from parse_single_no_pseudo[OF 1]
  have "list_all (\<lambda>x. \<not> is_PseudoColumnMapper x)
          (case parsed of PList xs \<Rightarrow> xs | _ \<Rightarrow> if truthy parsed then [parsed] else [])"
    by (cases parsed) auto
  with Cons.IH[OF 2] 3 show ?case by simp
qed

lemma parse_fields_no_pseudo:
  "parse_fields ev eng spec = Inr fs \<Longrightarrow> list_all (\<lambda>x. \<not> is_PseudoColumnMapper x) fs"
  by (auto simp: parse_fields_def split: if_splits sum.splits dest: parse_items_no_pseudo)

lemma permitted_fields_update [simp]:
  "owner_permitted ev (eng\<lparr>e_fields := x\<rparr>) = owner_permitted ev eng"
  "child_permitted ev (eng\<lparr>e_fields := x\<rparr>) d p = child_permitted ev eng d p"
  by (simp_all add: owner_permitted_def child_permitted_def get_permission_type_def)

lemma column_permitted_update [simp]:
  "column_permitted ev (eng\<lparr>e_fields := x\<rparr>) f = column_permitted ev eng f"
  by (induction ev eng f rule: column_permitted.induct) simp_all

lemma field_permission_permitted:
  assumes names: "list_all (\<lambda>s. is_identifier s \<and> sanitizer_keeps ev (e_is_mariadb eng) s)
                    (owner_permitted ev eng)"
    and res: "field_permission ev eng (owner_permitted ev eng) field = Inr kept"
    and np: "\<not> is_PseudoColumnMapper field"
  shows "list_all (column_permitted ev eng) kept"
proof (cases field)
  case (FieldObj t n a)
  show ?thesis
  proof (cases "n = ''*''")
    case True
    have "list_all (\<lambda>s. is_identifier s \<and> sanitizer_keeps ev (e_is_mariadb eng) s)
            (remdups (owner_permitted ev eng))"
      using names by (simp add: list_all_iff)
    from identifiers_parse_fields[OF this] res FieldObj True
    have "kept = map (\<lambda>n. FieldObj (e_table eng) n None) (remdups (owner_permitted ev eng))"
      by (simp add: field_permission_def)
    then show ?thesis by (simp add: list_all_iff)
  next
    case False
    with res FieldObj show ?thesis
      by (auto simp: field_permission_def split: if_splits)
  qed
next
  case (ChildQuery c)
  with res show ?thesis
    by (cases c) (auto simp: field_permission_def Let_def child_permitted_def list_all_iff
                       split: if_splits)
qed (use res np in \<open>auto simp: field_permission_def Let_def child_permitted_def split: if_splits\<close>)

lemma filter_permitted_permitted:
  assumes names: "list_all (\<lambda>s. is_identifier s \<and> sanitizer_keeps ev (e_is_mariadb eng) s)
                    (owner_permitted ev eng)"
  shows "filter_permitted ev eng (owner_permitted ev eng) fs = Inr allowed \<Longrightarrow>
         list_all (\<lambda>x. \<not> is_PseudoColumnMapper x) fs \<Longrightarrow>
         list_all (column_permitted ev eng) allowed"
proof (induction fs arbitrary: allowed)
  case Nil
  then show ?case by simp
next
  case (Cons f fs)
  from Cons.prems(1) obtain kept rest where
    1: "field_permission ev eng (owner_permitted ev eng) f = Inr kept" and
    2: "filter_permitted ev eng (owner_permitted ev eng) fs = Inr rest" and
    3: "allowed = kept @ rest"
    by (auto split: sum.splits)
  from Cons.prems(2) have np: "\<not> is_PseudoColumnMapper f" and nps: "list_all (\<lambda>x. \<not> is_PseudoColumnMapper x) fs"
    by simp_all
  from field_permission_permitted[OF names 1 np] Cons.IH[OF 2 nps] 3
  show ?case by simp
qed

text \<open>
  C3. In a build with permission enforcement the field list that \<open>apply_field_permissions\<close>
  returns for a parsed field list holds permitted columns only: a plain column and the link
  column of a linked field are among the permitted fields of the owning entity, the column of
  a child field and the sub-fields of a child query among those of the child entity. A
  requested bare \<open>*\<close> parses to the star of the owning table, and the filter replaces it by one
  plain column of that table per permitted field: as sets, the permitted fields of the owning
  entity. The permitted field names of the owning entity are taken to be plain identifiers
  that the comment strippers leave as they are.
\<close>

theorem permitted_columns_only:
  assumes "list_all (\<lambda>s. is_identifier s \<and> sanitizer_keeps ev (e_is_mariadb eng) s)
             (owner_permitted ev eng)"
  shows "(\<forall>spec parsed allowed.
            parse_fields ev eng spec = Inr parsed \<longrightarrow>
            apply_field_permissions ev (eng\<lparr>e_fields := parsed\<rparr>) = Inr allowed \<longrightarrow>
            list_all (column_permitted ev eng) allowed)
       \<and> (sanitizer_keeps ev (e_is_mariadb eng) ''*'' \<longrightarrow>
            parse_fields ev eng (PStr ''*'') = Inr [FieldObj (e_table eng) ''*'' None]
            \<and> (\<exists>allowed. apply_field_permissions ev (eng\<lparr>e_fields := [FieldObj (e_table eng) ''*'' None]\<rparr>)
                            = Inr allowed
                 \<and> set allowed = (\<lambda>n. FieldObj (e_table eng) n None) ` set (owner_permitted ev eng)))"
proof (intro conjI allI impI)
  fix spec parsed allowed
  assume p: "parse_fields ev eng spec = Inr parsed"
    and a: "apply_field_permissions ev (eng\<lparr>e_fields := parsed\<rparr>) = Inr allowed"
  let ?eng = "eng\<lparr>e_fields := parsed\<rparr>"
  have names: "list_all (\<lambda>s. is_identifier s \<and> sanitizer_keeps ev (e_is_mariadb ?eng) s)
                 (owner_permitted ev ?eng)"
    using assms by simp
  have f: "filter_permitted ev ?eng (owner_permitted ev ?eng) parsed = Inr allowed"
    using a by (simp add: apply_field_permissions_def owner_permitted_def)
  have "list_all (column_permitted ev ?eng) allowed"
    using names f parse_fields_no_pseudo[OF p] by (rule filter_permitted_permitted)
  moreover have "column_permitted ev ?eng = column_permitted ev eng"
    by (rule ext) simp
  ultimately show "list_all (column_permitted ev eng) allowed" by simp
next
  assume k: "sanitizer_keeps ev (e_is_mariadb eng) ''*''"
  have s: "sanitize_field ev ''*'' (e_is_mariadb eng) = Inr ''*''"
    using k by (auto simp: sanitize_field_def validate_select_field_def sanitizer_keeps_def
                  py_strip_def is_space_def Let_def)
  have "\<And>v. \<not> contains ''*'' (v @ ''('')"
  proof
    fix v assume "contains ''*'' (v @ ''('')"
    then have "set (v @ ''('') \<subseteq> set ''*''" by (rule contains_set)
    then show False by simp
  qed
  then have nf: "\<not> has_function ev ''*''"
    by (simp add: has_function_def SQL_FUNCTIONS_def casefold_def lower_char_def list_ex_iff)
  have i: "parse_single_field_item ev eng (PStr ''*'') = Inr (FieldObj (e_table eng) ''*'' None)"
    by (simp add: parse_single_field_item_def nf DynamicTableField_parse_def parse_string_field_def)
  show "parse_fields ev eng (PStr ''*'') = Inr [FieldObj (e_table eng) ''*'' None]"
    by (simp add: parse_fields_def COMMA_PATTERN_split_def py_strip_def is_space_def s i)
next
  assume k: "sanitizer_keeps ev (e_is_mariadb eng) ''*''"
  let ?eng = "eng\<lparr>e_fields := [FieldObj (e_table eng) ''*'' None]\<rparr>"
  have "list_all (\<lambda>s. is_identifier s \<and> sanitizer_keeps ev (e_is_mariadb ?eng) s)
          (remdups (owner_permitted ev eng))"
    using assms by (simp add: list_all_iff)
  from identifiers_parse_fields[OF this]
  have "apply_field_permissions ev ?eng =
          Inr (map (\<lambda>n. FieldObj (e_table eng) n None) (remdups (owner_permitted ev eng)))"
    by (simp add: apply_field_permissions_def field_permission_def owner_permitted_def
          get_permission_type_def)
  then show "\<exists>allowed. apply_field_permissions ev ?eng = Inr allowed
               \<and> set allowed = (\<lambda>n. FieldObj (e_table eng) n None) ` set (owner_permitted ev eng)"
    by simp
qed

theorem permitted_columns_only_witness:
  "list_all (\<lambda>s. is_identifier s \<and> sanitizer_keeps example_env (e_is_mariadb enforcing_engine) s)
     (owner_permitted example_env enforcing_engine)
   \<and> parse_fields example_env enforcing_engine (PStr ''name, secret, territory.lft'')
       = Inr [FieldObj (DocType ''Task'') ''name'' None, FieldObj (DocType ''Task'') ''secret'' None,
              LinkTableField ''Territory'' ''lft'' ''Task'' ''territory'' None]
   \<and> apply_field_permissions example_env
        (enforcing_engine\<lparr>e_fields :=
           [FieldObj (DocType ''Task'') ''name'' None, FieldObj (DocType ''Task'') ''secret'' None,
            LinkTableField ''Territory'' ''lft'' ''Task'' ''territory'' None]\<rparr>)
       = Inr [FieldObj (DocType ''Task'') ''name'' None,
              LinkTableField ''Territory'' ''lft'' ''Task'' ''territory'' None]
   \<and> list_all (column_permitted example_env enforcing_engine)
        [FieldObj (DocType ''Task'') ''name'' None,
         LinkTableField ''Territory'' ''lft'' ''Task'' ''territory'' None]
   \<and> sanitizer_keeps example_env (e_is_mariadb enforcing_engine) ''*''
   \<and> parse_fields example_env enforcing_engine (PStr ''*'') = Inr [FieldObj (DocType ''Task'') ''*'' None]
   \<and> (\<exists>allowed.
         apply_field_permissions example_env
           (enforcing_engine\<lparr>e_fields := [FieldObj (DocType ''Task'') ''*'' None]\<rparr>) = Inr allowed
         \<and> set allowed = (\<lambda>n. FieldObj (DocType ''Task'') n None) ` set [''name'', ''status'', ''territory''])"
proof -
  have h: "list_all (\<lambda>s. is_identifier s \<and> sanitizer_keeps example_env (e_is_mariadb enforcing_engine) s)
             (owner_permitted example_env enforcing_engine)"
    by code_simp
  have p: "parse_fields example_env enforcing_engine (PStr ''name, secret, territory.lft'')
       = Inr [FieldObj (DocType ''Task'') ''name'' None, FieldObj (DocType ''Task'') ''secret'' None,
              LinkTableField ''Territory'' ''lft'' ''Task'' ''territory'' None]"
    by code_simp
  have a: "apply_field_permissions example_env
        (enforcing_engine\<lparr>e_fields :=
           [FieldObj (DocType ''Task'') ''name'' None, FieldObj (DocType ''Task'') ''secret'' None,
            LinkTableField ''Territory'' ''lft'' ''Task'' ''territory'' None]\<rparr>)
       = Inr [FieldObj (DocType ''Task'') ''name'' None,
              LinkTableField ''Territory'' ''lft'' ''Task'' ''territory'' None]"
    by code_simp
  have k: "sanitizer_keeps example_env (e_is_mariadb enforcing_engine) ''*''"
    by code_simp
  have t: "e_table enforcing_engine = DocType ''Task''"
    by (simp add: enforcing_engine_def init_engine_def)
  have o: "owner_permitted example_env enforcing_engine = [''name'', ''status'', ''territory'']"
    by code_simp
  note all = permitted_columns_only[OF h]
  from all p a have c: "list_all (column_permitted example_env enforcing_engine)
        [FieldObj (DocType ''Task'') ''name'' None,
         LinkTableField ''Territory'' ''lft'' ''Task'' ''territory'' None]"
    by blast
  from all k have s: "parse_fields example_env enforcing_engine (PStr ''*'')
        = Inr [FieldObj (e_table enforcing_engine) ''*'' None]
     \<and> (\<exists>allowed.
         apply_field_permissions example_env
           (enforcing_engine\<lparr>e_fields := [FieldObj (e_table enforcing_engine) ''*'' None]\<rparr>) = Inr allowed
         \<and> set allowed = (\<lambda>n. FieldObj (e_table enforcing_engine) n None)
                            ` set (owner_permitted example_env enforcing_engine))"
    by blast
  show ?thesis
    using h p a c k s unfolding t o by blast
qed

section \<open>What the steps after the fields keep\<close>

lemma apply_join_selects: "q_selects (apply_join f q) = q_selects q"
  by (cases f) (simp_all add: Let_def left_join_on_def)

lemma carried_refl: "carried q q"
  by (simp add: carried_def)

lemma carried_trans: "carried q q' \<Longrightarrow> carried q' q'' \<Longrightarrow> carried q q''"
  by (simp add: carried_def)

lemma carried_where: "carried q (q_where q c)"
  by (simp add: carried_def q_where_def)

lemma carried_apply_join: "carried q (apply_join f q)"
  by (simp add: carried_def apply_join_selects apply_join_distinct)

lemma prepare_filter_field_carried:
  "validate_and_prepare_filter_field ev eng field doctype = Inr (fld, eng1) \<Longrightarrow>
   carried (e_query eng) (e_query eng1)"
  by (auto simp: validate_and_prepare_filter_field_def Let_def carried_apply_join carried_refl
        split: pyobj.splits sum.splits option.splits if_splits)

lemma implicit_child_join_carried:
  "carried (e_query eng) (e_query (implicit_child_join ev eng doctype))"
  by (auto simp: implicit_child_join_def carried_def left_join_on_def is_joined_def
        split: option.splits)

lemma apply_filter_carried:
  assumes "apply_filter ev eng field val operator doctype = Inr eng'"
  shows "carried (e_query eng) (e_query eng')"
proof -
  from assms obtain fld eng1 where
    p: "validate_and_prepare_filter_field ev eng field doctype = Inr (fld, eng1)"
    by (auto simp: apply_filter_def split: sum.splits)
  let ?eng2 = "implicit_child_join ev eng1 doctype"
  from assms p obtain c where "eng' = ?eng2\<lparr>e_query := q_where (e_query ?eng2) c\<rparr>"
    by (auto simp: apply_filter_def Let_def split: sum.splits)
  then have "carried (e_query ?eng2) (e_query eng')"
    by (simp add: carried_where)
  with prepare_filter_field_carried[OF p] implicit_child_join_carried[of eng1 ev doctype]
  show ?thesis by (blast intro: carried_trans)
qed

lemma apply_dict_filters_carried:
  "apply_dict_filters ev eng kvs = Inr eng' \<Longrightarrow> carried (e_query eng) (e_query eng')"
proof (induction kvs arbitrary: eng)
  case Nil
  then show ?case by (simp add: carried_refl)
next
  case (Cons kv kvs)
  obtain field val where kv: "kv = (field, val)" by (cases kv)
  from Cons.prems kv obtain operator v eng1 where
    1: "apply_filter ev eng field v operator None = Inr eng1" and
    2: "apply_dict_filters ev eng1 kvs = Inr eng'"
    by (auto split: sum.splits if_splits list.splits)
  from apply_filter_carried[OF 1] Cons.IH[OF 2] show ?case by (rule carried_trans)
qed

lemma apply_list_filters_carried:
  "apply_list_filters ev eng flt = Inr eng' \<Longrightarrow> carried (e_query eng) (e_query eng')"
  by (auto simp: apply_list_filters_def split: list.splits sum.splits dest: apply_filter_carried)

lemma apply_filters_carried:
  "apply_filters ev eng filters = Inr eng' \<Longrightarrow> carried (e_query eng) (e_query eng')"
  "apply_filters_each ev eng items = Inr eng' \<Longrightarrow> carried (e_query eng) (e_query eng')"
proof (induction ev eng filters and ev eng items arbitrary: eng' and eng'
       rule: apply_filters_apply_filters_each.induct)
  case (1 ev eng filters)
  show ?case
  proof (cases "filters = PNone \<or> is_FilterValue ev filters \<or> is_Criterion filters")
    case True
    then consider (n) "filters = PNone"
      | (v) "filters \<noteq> PNone" "is_FilterValue ev filters"
      | (c) "filters \<noteq> PNone" "\<not> is_FilterValue ev filters" "is_Criterion filters"
      by blast
    then show ?thesis
    proof cases
      case n
      with "1.prems" show ?thesis by (simp add: carried_refl)
    next
      case v
      with "1.prems" obtain x where
        "apply_dict_filters ev eng [(PStr ''name'', x)] = Inr eng'"
        by (cases "convert_to_value ev filters") simp_all
      then show ?thesis by (rule apply_dict_filters_carried)
    next
      case c
      with "1.prems" show ?thesis by (auto simp: carried_where)
    qed
  next
    case False
    show ?thesis
    proof (cases filters)
      case (PDict kvs)
      with False "1.prems" show ?thesis by (auto dest: apply_dict_filters_carried)
    next
      case (PList items)
      show ?thesis
      proof (cases "list_all (is_FilterValue ev) items \<and> items \<noteq> []")
        case True
        with False PList "1.prems" obtain vs where
          "apply_dict_filters ev eng [(PStr ''name'', PTuple [PStr ''in'', PTuple vs])] = Inr eng'"
          by (cases "convert_all ev items") simp_all
        then show ?thesis by (rule apply_dict_filters_carried)
      next
        case f: False
        with False PList "1.prems" have "apply_filters_each ev eng items = Inr eng'" by auto
        with "1.IH"(1)[of items] False PList f show ?thesis by auto
      qed
    next
      case (PTuple items)
      show ?thesis
      proof (cases "list_all (is_FilterValue ev) items \<and> items \<noteq> []")
        case True
        with False PTuple "1.prems" obtain vs where
          "apply_dict_filters ev eng [(PStr ''name'', PTuple [PStr ''in'', PTuple vs])] = Inr eng'"
          by (cases "convert_all ev items") simp_all
        then show ?thesis by (rule apply_dict_filters_carried)
      next
        case f: False
        with False PTuple "1.prems" have "apply_filters_each ev eng items = Inr eng'" by auto
        with "1.IH"(2)[of items] False PTuple f show ?thesis by auto
      qed
    qed (use False "1.prems" in auto)
  qed
next
  case (2 ev eng)
  then show ?case by (simp add: carried_refl)
next
  case (3 ev eng flt rest)
  from "3.prems" obtain eng1 where
    a: "(if is_FilterValue ev flt \<or> is_Criterion flt \<or> is_dict flt then apply_filters ev eng flt
         else if is_list_or_tuple flt then apply_list_filters ev eng (seq_items flt)
         else Inl (ValueError ''Unknown filter type'')) = Inr eng1"
    and b: "apply_filters_each ev eng1 rest = Inr eng'"
    by (auto split: sum.splits)
  have "carried (e_query eng) (e_query eng1)"
  proof (cases "is_FilterValue ev flt \<or> is_Criterion flt \<or> is_dict flt")
    case True
    with a have "apply_filters ev eng flt = Inr eng1" by simp
    with "3.IH"(1) True show ?thesis by simp
  next
    case False
    with a show ?thesis by (auto split: if_splits dest: apply_list_filters_carried)
  qed
  moreover have "carried (e_query eng1) (e_query eng')"
    using "3.IH"(2) a b by simp
  ultimately show ?case by (rule carried_trans)
qed

lemma order_by_declarations_carried:
  "carried q (foldl order_by_declaration q ds)"
proof (induction ds arbitrary: q)
  case Nil
  then show ?case by (simp add: carried_refl)
next
  case (Cons d ds)
  have "carried q (order_by_declaration q d)"
    by (simp add: order_by_declaration_def Let_def carried_def split: list.splits)
  with Cons[of "order_by_declaration q d"] show ?case by (auto intro: carried_trans)
qed

lemma apply_order_by_carried:
  "apply_order_by ev eng order_by = Inr eng' \<Longrightarrow> carried (e_query eng) (e_query eng')"
  by (auto simp: apply_order_by_def order_by_declarations_carried carried_refl
        split: if_splits sum.splits pyobj.splits)

lemma add_permission_conditions_carried:
  "add_permission_conditions ev eng = Inr eng' \<Longrightarrow> carried (e_query eng) (e_query eng')"
  by (auto simp: add_permission_conditions_def carried_where carried_refl Let_def
        split: sum.splits if_splits)

lemma apply_options_carried:
  "apply_options q args = Inr q' \<Longrightarrow> carried q q'"
  by (auto simp: apply_options_def Let_def carried_def
        split: sum.splits option.splits if_splits pyobj.splits)

lemma apply_clauses_carried:
  assumes "apply_clauses ev eng args = Inr eng'"
  shows "carried (e_query eng) (e_query eng')"
proof -
  from assms obtain e1 where 1: "apply_filters ev eng (a_filters args) = Inr e1"
    by (cases "apply_filters ev eng (a_filters args)") (simp_all add: apply_clauses_def)
  from assms 1 obtain e2 where 2: "apply_order_by ev e1 (a_order_by args) = Inr e2"
    by (cases "apply_order_by ev e1 (a_order_by args)") (simp_all add: apply_clauses_def)
  from assms 1 2 obtain q where 3: "apply_options (e_query e2) args = Inr q"
    by (cases "apply_options (e_query e2) args") (simp_all add: apply_clauses_def)
  from assms 1 2 3 obtain e3 where
    4: "(if e_apply_permissions e2 then add_permission_conditions ev (e2\<lparr>e_query := q\<rparr>)
         else Inr (e2\<lparr>e_query := q\<rparr>)) = Inr e3" and
    5: "eng' = e3\<lparr>e_query := (e_query e3)\<lparr>q_immutable := True\<rparr>\<rparr>"
    by (cases "if e_apply_permissions e2 then add_permission_conditions ev (e2\<lparr>e_query := q\<rparr>)
               else Inr (e2\<lparr>e_query := q\<rparr>)")
       (simp_all add: apply_clauses_def)
  from 4 have "carried q (e_query e3)"
    by (auto simp: carried_refl split: if_splits dest: add_permission_conditions_carried)
  moreover from 5 have "carried (e_query e3) (e_query eng')"
    by (simp add: carried_def)
  ultimately have "carried (e_query e2) (e_query eng')"
    using apply_options_carried[OF 3] by (blast intro: carried_trans)
  with apply_filters_carried(1)[OF 1] apply_order_by_carried[OF 2] show ?thesis
    by (blast intro: carried_trans)
qed

lemma select_one_distinct:
  "distinct (map fst (q_joins q)) \<Longrightarrow> distinct (map fst (q_joins (select_one q f)))"
proof -
  assume d: "distinct (map fst (q_joins q))"
  have "q_joins (apply_select f q) = q_joins (apply_join f q)"
    by (cases f) (simp_all add: q_select_def)
  with apply_join_distinct[OF d, of f] d show ?thesis
    by (simp add: select_one_def q_select_def)
qed

lemma select_all_distinct:
  "distinct (map fst (q_joins q)) \<Longrightarrow> distinct (map fst (q_joins (foldl select_one q fs)))"
  by (induction fs arbitrary: q) (simp_all add: select_one_distinct)

lemma apply_fields_distinct:
  assumes "apply_fields ev eng spec = Inr eng'"
    and "distinct (map fst (q_joins (e_query eng)))"
  shows "distinct (map fst (q_joins (e_query eng')))"
proof -
  from assms(1) obtain parsed where p: "parse_fields ev eng spec = Inr parsed"
    by (cases "parse_fields ev eng spec") (simp_all add: apply_fields_def)
  let ?r = "if e_apply_permissions eng
            then apply_field_permissions ev (eng\<lparr>e_fields := parsed\<rparr>) else Inr parsed"
  from assms(1) p obtain fs0 where f: "?r = Inr fs0"
    by (cases ?r) (simp_all add: apply_fields_def)
  define fs where "fs = (if fs0 = [] then [FieldObj (e_table eng) ''name'' None] else fs0)"
  from assms(1) p f
  have "eng' = eng\<lparr>e_fields := fs,
                    e_query := foldl select_one ((e_query eng)\<lparr>q_child_queries := []\<rparr>) fs\<rparr>"
    by (simp add: apply_fields_def Let_def fs_def)
  then have "e_query eng' = foldl select_one ((e_query eng)\<lparr>q_child_queries := []\<rparr>) fs"
    by simp
  with assms(2) select_all_distinct[of "(e_query eng)\<lparr>q_child_queries := []\<rparr>" fs]
  show ?thesis by simp
qed

lemma get_query_joins_distinct:
  assumes "get_query ev tbl args = Inr q"
  shows "distinct (map fst (q_joins q))"
proof -
  from assms obtain t doctype where r: "resolve_table ev tbl = Inr (t, doctype)"
    by (cases "resolve_table ev tbl") (auto simp: get_query_def)
  let ?eng0 = "init_engine ev t doctype args"
  let ?m = "if a_update args then Inr (?eng0\<lparr>e_query := new_query UpdateMode t\<rparr>)
            else if a_into args then Inr (?eng0\<lparr>e_query := new_query InsertMode t\<rparr>)
            else if a_delete args then Inr (?eng0\<lparr>e_query := new_query DeleteMode t\<rparr>)
            else apply_fields ev ?eng0 (a_fields args)"
  from assms r have k: "(if e_apply_permissions ?eng0 then check_read_permission ev ?eng0 else Inr ())
                          = Inr ()"
    by (cases "if e_apply_permissions ?eng0 then check_read_permission ev ?eng0 else Inr ()")
       (simp_all add: get_query_def Let_def)
  from assms r k obtain eng1 where m: "?m = Inr eng1"
    by (cases ?m) (simp_all add: get_query_def Let_def)
  from assms r k m obtain eng2 where
    c: "apply_clauses ev eng1 args = Inr eng2" and q: "q = e_query eng2"
    by (cases "apply_clauses ev eng1 args") (auto simp: get_query_def Let_def)
  have "distinct (map fst (q_joins (e_query ?eng0)))"
    by (simp add: init_engine_def new_query_def)
  with m have "distinct (map fst (q_joins (e_query eng1)))"
    by (auto simp: new_query_def split: if_splits dest: apply_fields_distinct)
  with apply_clauses_carried[OF c] q show ?thesis by (simp add: carried_def)
qed

section \<open>The default column\<close>

lemma apply_fields_empty:
  assumes "parse_fields ev eng spec = Inr parsed"
    and "if e_apply_permissions eng
         then apply_field_permissions ev (eng\<lparr>e_fields := parsed\<rparr>) = Inr []
         else parsed = []"
  shows "apply_fields ev eng spec =
           Inr (eng\<lparr>e_fields := [FieldObj (e_table eng) ''name'' None],
                  e_query := q_select ((e_query eng)\<lparr>q_child_queries := []\<rparr>)
                               (FieldObj (e_table eng) ''name'' None)\<rparr>)"
  using assms by (auto simp: apply_fields_def select_one_def split: if_splits)

text \<open>
  C10. In a select-mode build in which parsing the fields and, under permission enforcement,
  the column-permission filter leave the field list empty (nothing was asked for, or every
  requested field was dropped as unpermitted), \<open>apply_fields\<close> succeeds and selects the \<open>name\<close>
  column of the owning table and nothing else, and so does every query \<open>get_query\<close> returns:
  no later step touches the select list.
\<close>

theorem empty_field_list_selects_name:
  assumes "resolve_table ev tbl = Inr (t, doctype)"
    and "\<not> a_update args \<and> \<not> a_into args \<and> \<not> a_delete args"
    and "parse_fields ev (init_engine ev t doctype args) (a_fields args) = Inr parsed"
    and "if a_ignore_permissions args then parsed = []
         else apply_field_permissions ev ((init_engine ev t doctype args)\<lparr>e_fields := parsed\<rparr>) = Inr []"
  shows "(\<exists>eng'. apply_fields ev (init_engine ev t doctype args) (a_fields args) = Inr eng'
            \<and> selected eng' = [FieldObj t ''name'' None])
       \<and> (\<forall>q. get_query ev tbl args = Inr q \<longrightarrow> q_selects q = [FieldObj t ''name'' None])"
proof -
  let ?eng = "init_engine ev t doctype args"
  let ?eng' = "?eng\<lparr>e_fields := [FieldObj (e_table ?eng) ''name'' None],
                  e_query := q_select ((e_query ?eng)\<lparr>q_child_queries := []\<rparr>)
                               (FieldObj (e_table ?eng) ''name'' None)\<rparr>"
  have p: "if e_apply_permissions ?eng
           then apply_field_permissions ev (?eng\<lparr>e_fields := parsed\<rparr>) = Inr []
           else parsed = []"
    using assms(4) by (simp add: init_engine_def split: if_splits)
  have f: "apply_fields ev ?eng (a_fields args) = Inr ?eng'"
    using assms(3) p by (rule apply_fields_empty)
  have s: "selected ?eng' = [FieldObj t ''name'' None]"
    by (simp add: selected_def q_select_def init_engine_def new_query_def)
  have "q_selects q = [FieldObj t ''name'' None]" if g: "get_query ev tbl args = Inr q" for q
  proof -
    from g assms(1,2) f obtain eng2 where
      c: "apply_clauses ev ?eng' args = Inr eng2" and q: "q = e_query eng2"
      by (cases "apply_clauses ev ?eng' args")
         (auto simp: get_query_def Let_def split: sum.splits if_splits)
    from apply_clauses_carried[OF c] s q show ?thesis by (simp add: selected_def carried_def)
  qed
  with f s show ?thesis by blast
qed

theorem empty_field_list_selects_name_witness:
  "resolve_table example_env (TableName ''Task'') = Inr (DocType ''Task'', ''Task'')
   \<and> (\<not> a_update dropped_fields_args \<and> \<not> a_into dropped_fields_args \<and> \<not> a_delete dropped_fields_args)
   \<and> parse_fields example_env (init_engine example_env (DocType ''Task'') ''Task'' dropped_fields_args)
        (a_fields dropped_fields_args)
       = Inr [FieldObj (DocType ''Task'') ''secret'' None,
              LinkTableField ''User'' ''email'' ''Task'' ''assigned_to'' None]
   \<and> apply_field_permissions example_env
        ((init_engine example_env (DocType ''Task'') ''Task'' dropped_fields_args)
           \<lparr>e_fields := [FieldObj (DocType ''Task'') ''secret'' None,
                         LinkTableField ''User'' ''email'' ''Task'' ''assigned_to'' None]\<rparr>) = Inr []
   \<and> map_sum id q_selects (get_query example_env (TableName ''Task'') dropped_fields_args)
       = Inr [FieldObj (DocType ''Task'') ''name'' None]"
proof -
  have 1: "resolve_table example_env (TableName ''Task'') = Inr (DocType ''Task'', ''Task'')"
    by code_simp
  have 2: "\<not> a_update dropped_fields_args \<and> \<not> a_into dropped_fields_args \<and> \<not> a_delete dropped_fields_args"
    by (simp add: dropped_fields_args_def example_args_def)
  have 3: "parse_fields example_env (init_engine example_env (DocType ''Task'') ''Task'' dropped_fields_args)
        (a_fields dropped_fields_args)
       = Inr [FieldObj (DocType ''Task'') ''secret'' None,
              LinkTableField ''User'' ''email'' ''Task'' ''assigned_to'' None]"
    by code_simp
  have 4: "apply_field_permissions example_env
        ((init_engine example_env (DocType ''Task'') ''Task'' dropped_fields_args)
           \<lparr>e_fields := [FieldObj (DocType ''Task'') ''secret'' None,
                         LinkTableField ''User'' ''email'' ''Task'' ''assigned_to'' None]\<rparr>) = Inr []"
    by code_simp
  have 5: "if a_ignore_permissions dropped_fields_args
           then [FieldObj (DocType ''Task'') ''secret'' None,
                 LinkTableField ''User'' ''email'' ''Task'' ''assigned_to'' None] = []
           else apply_field_permissions example_env
                  ((init_engine example_env (DocType ''Task'') ''Task'' dropped_fields_args)
                     \<lparr>e_fields := [FieldObj (DocType ''Task'') ''secret'' None,
                         LinkTableField ''User'' ''email'' ''Task'' ''assigned_to'' None]\<rparr>) = Inr []"
    using 4 by (simp add: dropped_fields_args_def)
  have 6: "\<exists>q. get_query example_env (TableName ''Task'') dropped_fields_args = Inr q"
  proof -
    have "isl (get_query example_env (TableName ''Task'') dropped_fields_args) = False"
      by code_simp
    then show ?thesis by (cases "get_query example_env (TableName ''Task'') dropped_fields_args") auto
  qed
  from 6 empty_field_list_selects_name[OF 1 2 3 5]
  have "map_sum id q_selects (get_query example_env (TableName ''Task'') dropped_fields_args)
       = Inr [FieldObj (DocType ''Task'') ''name'' None]"
    by auto
  with 1 2 3 4 show ?thesis by blast
qed

section \<open>Hierarchy filters on an absent node\<close>

lemma rows_by_lft_empty: "rows_by_lft [] = []"
  by (simp add: rows_by_lft_def)

lemma absent_node_result:
  assumes "node_absent ev doctype name"
  shows "get_nested_set_hierarchy_result ev doctype name hierarchy =
           (if hierarchy = ''descendants of (inclusive)'' then [name] else [])"
proof -
  have f: "filter (\<lambda>(n, l, r). PStr n = name) (db_rows ev doctype) = []"
    using assms by (auto simp: node_absent_def list_all_iff filter_empty_conv)
  have l: "\<And>x. \<not> sql_less None x" and r: "\<And>x. \<not> sql_less x None"
    by (simp_all add: sql_less_def split: option.splits)
  have d: "filter (\<lambda>(n, l, r). sql_less None l \<and> sql_less r None) (db_rows ev doctype) = []"
    by (auto simp: filter_empty_conv l)
  have a: "filter (\<lambda>(n, l, r). sql_less l None \<and> sql_less None r) (db_rows ev doctype) = []"
    by (auto simp: filter_empty_conv l)
  show ?thesis
    by (simp add: get_nested_set_hierarchy_result_def f d a rows_by_lft_empty Let_def)
qed

lemma prepare_filter_field_doctype:
  "validate_and_prepare_filter_field ev eng field doctype = Inr (fld, eng1) \<Longrightarrow>
   e_doctype eng1 = e_doctype eng"
  by (auto simp: validate_and_prepare_filter_field_def Let_def
        split: pyobj.splits sum.splits option.splits if_splits)

lemma implicit_child_join_same:
  "e_doctype (implicit_child_join ev eng d) = e_doctype eng"
  "q_wheres (e_query (implicit_child_join ev eng d)) = q_wheres (e_query eng)"
  by (simp_all add: implicit_child_join_def left_join_on_def split: option.splits)

text \<open>
  C4, as the code has it. A hierarchy filter whose reference node is not found in the tree
  table does not fail. For \<open>descendants of\<close>, \<open>ancestors of\<close>, \<open>not descendants of\<close> and
  \<open>not ancestors of\<close> the node set is empty and the predicate added is \<open>IN ('')\<close>, or
  \<open>NOT IN ('')\<close> for the two negated operators. For \<open>descendants of (inclusive)\<close> the node set
  is the reference name alone, appended without a look at the lookup, and the predicate is
  \<open>IN (name)\<close>.
\<close>

theorem absent_node_predicate:
  assumes "validate_and_prepare_filter_field ev eng field doctype = Inr (fld, eng1)"
    and "(case field of PStr s \<Rightarrow> Inr s | _ \<Rightarrow> obj_name fld) = Inr original_field_name"
    and "convert_to_value ev val = Inr v"
    and "op \<in> set NESTED_SET_OPERATORS"
    and "node_absent ev (filter_ref_doctype ev eng original_field_name) (blank_if_empty v)"
    and "OPERATOR_MAP ev ''in'' = Some func_in \<and> OPERATOR_MAP ev ''not in'' = Some func_not_in"
  shows "get_nested_set_hierarchy_result ev (filter_ref_doctype ev eng original_field_name)
           (blank_if_empty v) op
           = (if op = ''descendants of (inclusive)'' then [blank_if_empty v] else [])
       \<and> (\<exists>eng'. apply_filter ev eng field val (PStr op) doctype = Inr eng'
             \<and> q_wheres (e_query eng') = q_wheres (e_query eng) @
                 [if op = ''descendants of (inclusive)'' then IsInCrit fld (PList [blank_if_empty v])
                  else if op \<in> set [''not ancestors of'', ''not descendants of'']
                  then NotInCrit fld (PTuple [PStr []])
                  else IsInCrit fld (PTuple [PStr []])])"
proof -
  let ?eng2 = "implicit_child_join ev eng1 doctype"
  let ?ref = "filter_ref_doctype ev eng original_field_name"
  have d: "e_doctype ?eng2 = e_doctype eng"
    using prepare_filter_field_doctype[OF assms(1)] by (simp add: implicit_child_join_same)
  have w: "q_wheres (e_query ?eng2) = q_wheres (e_query eng)"
    using prepare_filter_field_wheres[OF assms(1)] by (simp add: implicit_child_join_same)
  have n: "get_nested_set_hierarchy_result ev ?ref (blank_if_empty v) op
             = (if op = ''descendants of (inclusive)'' then [blank_if_empty v] else [])"
    using assms(5) by (rule absent_node_result)
  have c: "nested_set_criterion ev ?eng2 field fld (blank_if_empty v) op =
             Inr (if op = ''descendants of (inclusive)'' then IsInCrit fld (PList [blank_if_empty v])
                  else if op \<in> set [''not ancestors of'', ''not descendants of'']
                  then NotInCrit fld (PTuple [PStr []])
                  else IsInCrit fld (PTuple [PStr []]))"
  proof -
    have ref: "(case meta_get_field ev (e_doctype ?eng2) original_field_name of
                  Some df \<Rightarrow> df_options df
                | None \<Rightarrow> e_doctype ?eng2) = ?ref"
      by (cases "meta_get_field ev (e_doctype eng) original_field_name")
         (simp_all add: d filter_ref_doctype_def)
    show ?thesis
    proof (cases "op = ''descendants of (inclusive)''")
      case True
      with n have "get_nested_set_hierarchy_result ev ?ref (blank_if_empty v) op = [blank_if_empty v]"
        by simp
      with assms(2,6) True show ?thesis
        by (simp add: nested_set_criterion_def ref Let_def func_in_def)
    next
      case False
      with n have "get_nested_set_hierarchy_result ev ?ref (blank_if_empty v) op = []"
        by simp
      with assms(2,6) False show ?thesis
        by (simp add: nested_set_criterion_def ref Let_def func_in_def func_not_in_def)
    qed
  qed
  have "apply_filter ev eng field val (PStr op) doctype =
          Inr (?eng2\<lparr>e_query := q_where (e_query ?eng2)
                 (if op = ''descendants of (inclusive)'' then IsInCrit fld (PList [blank_if_empty v])
                  else if op \<in> set [''not ancestors of'', ''not descendants of'']
                  then NotInCrit fld (PTuple [PStr []])
                  else IsInCrit fld (PTuple [PStr []]))\<rparr>)"
    using assms(1,3,4) c by (simp add: apply_filter_def filter_criterion_def Let_def)
  with n w show ?thesis by (simp add: q_where_def)
qed


theorem absent_node_predicate_witness:
  "validate_and_prepare_filter_field example_env example_engine (PStr ''territory'') None
     = Inr (FieldObj (DocType ''Task'') ''territory'' None, example_engine)
   \<and> convert_to_value example_env (PStr ''Nowhere'') = Inr (PStr ''Nowhere'')
   \<and> ''not descendants of'' \<in> set NESTED_SET_OPERATORS
   \<and> node_absent example_env (filter_ref_doctype example_env example_engine ''territory'')
        (blank_if_empty (PStr ''Nowhere''))
   \<and> OPERATOR_MAP example_env ''in'' = Some func_in
   \<and> OPERATOR_MAP example_env ''not in'' = Some func_not_in
   \<and> get_nested_set_hierarchy_result example_env ''Territory'' (PStr ''Nowhere'') ''not descendants of'' = []
   \<and> map_sum id predicates
        (apply_filter example_env example_engine (PStr ''territory'') (PStr ''Nowhere'')
           (PStr ''not descendants of'') None)
       = Inr [NotInCrit (FieldObj (DocType ''Task'') ''territory'' None) (PTuple [PStr []])]"
proof -
  have a: "validate_and_prepare_filter_field example_env example_engine (PStr ''territory'') None
     = Inr (FieldObj (DocType ''Task'') ''territory'' None, example_engine)"
    by code_simp
  have b: "(case PStr ''territory'' of PStr s \<Rightarrow> Inr s
            | _ \<Rightarrow> obj_name (FieldObj (DocType ''Task'') ''territory'' None)) = Inr ''territory''"
    by simp
  have c: "convert_to_value example_env (PStr ''Nowhere'') = Inr (PStr ''Nowhere'')"
    by (simp add: example_env_def)
  have d: "''not descendants of'' \<in> set NESTED_SET_OPERATORS"
    by (simp add: NESTED_SET_OPERATORS_def)
  have e: "node_absent example_env (filter_ref_doctype example_env example_engine ''territory'')
        (blank_if_empty (PStr ''Nowhere''))"
    by code_simp
  have f: "OPERATOR_MAP example_env ''in'' = Some func_in
           \<and> OPERATOR_MAP example_env ''not in'' = Some func_not_in"
    by (simp add: example_env_def)
  have r: "filter_ref_doctype example_env example_engine ''territory'' = ''Territory''"
    by code_simp
  have v: "blank_if_empty (PStr ''Nowhere'') = PStr ''Nowhere''"
    by (simp add: blank_if_empty_def)
  have w: "q_wheres (e_query example_engine) = []"
    by (simp add: example_engine_def init_engine_def new_query_def)
  from absent_node_predicate[OF a b c d e f]
  have "get_nested_set_hierarchy_result example_env ''Territory'' (PStr ''Nowhere'') ''not descendants of'' = []
   \<and> map_sum id predicates
        (apply_filter example_env example_engine (PStr ''territory'') (PStr ''Nowhere'')
           (PStr ''not descendants of'') None)
       = Inr [NotInCrit (FieldObj (DocType ''Task'') ''territory'' None) (PTuple [PStr []])]"
    by (auto simp: r v w predicates_def)
  with a c d e f show ?thesis by simp
qed

text \<open>
  C4, as stated, fails for \<open>descendants of (inclusive)\<close>: on the territory tree, which has no
  node \<open>Nowhere\<close>, the node set is \<open>[Nowhere]\<close> and the predicate is \<open>IN ('Nowhere')\<close>.
\<close>

theorem inclusive_absent_node_counterexample:
  "node_absent example_env ''Territory'' (PStr ''Nowhere'')
   \<and> get_nested_set_hierarchy_result example_env ''Territory'' (PStr ''Nowhere'')
        ''descendants of (inclusive)'' = [PStr ''Nowhere'']
   \<and> map_sum id predicates
        (apply_filter example_env example_engine (PStr ''territory'') (PStr ''Nowhere'')
           (PStr ''descendants of (inclusive)'') None)
       = Inr [IsInCrit (FieldObj (DocType ''Task'') ''territory'' None) (PList [PStr ''Nowhere''])]"
proof -
  have a: "node_absent example_env ''Territory'' (PStr ''Nowhere'')"
    by code_simp
  have b: "get_nested_set_hierarchy_result example_env ''Territory'' (PStr ''Nowhere'')
        ''descendants of (inclusive)'' = [PStr ''Nowhere'']"
    by code_simp
  have c: "map_sum id predicates
        (apply_filter example_env example_engine (PStr ''territory'') (PStr ''Nowhere'')
           (PStr ''descendants of (inclusive)'') None)
       = Inr [IsInCrit (FieldObj (DocType ''Task'') ''territory'' None) (PList [PStr ''Nowhere''])]"
    by code_simp
  from a b c show ?thesis by simp
qed

section \<open>User-permission conditions\<close>

lemma permitted_docs_applicable:
  "permitted_docs eng df vals = Inr docs \<Longrightarrow> docs = applicable_docs eng vals"
proof (induction vals arbitrary: docs)
  case Nil
  then show ?case by (simp add: applicable_docs_def)
next
  case (Cons p ps)
  from Cons.prems obtain ds ds2 where
    1: "permitted_docs eng df ps = Inr ds2" and 2: "docs = ds @ ds2" and
    3: "(if \<not> str_truthy (up_applicable_for p) then Inr [up_doc p]
         else if lf_fieldname df = ''name'' then Inl (AttributeError ''reference_doctype'')
         else if up_applicable_for p = Some (e_doctype eng) then Inr [up_doc p]
         else Inr []) = Inr ds"
    by (auto split: sum.splits)
  from Cons.IH[OF 1] have "ds2 = applicable_docs eng ps" .
  moreover from 3 have "ds = applicable_docs eng [p]"
    by (auto simp: applicable_docs_def split: if_splits)
  ultimately show ?case using 2 by (simp add: applicable_docs_def)
qed

lemma link_field_conditions_form:
  "link_field_conditions ev eng ups dfs = Inr conditions \<Longrightarrow>
   list_all (\<lambda>c. \<exists>df vals. df \<in> set dfs \<and> map_of ups (lf_options df) = Some vals
                    \<and> applicable_docs eng vals \<noteq> []
                    \<and> c = user_permission_condition ev eng (lf_fieldname df) (applicable_docs eng vals))
     conditions"
proof (induction dfs arbitrary: conditions)
  case Nil
  then show ?case by simp
next
  case (Cons df dfs)
  let ?P = "\<lambda>S c. \<exists>df vals. df \<in> S \<and> map_of ups (lf_options df) = Some vals
                    \<and> applicable_docs eng vals \<noteq> []
                    \<and> c = user_permission_condition ev eng (lf_fieldname df) (applicable_docs eng vals)"
  from Cons.prems obtain cs cs2 where
    1: "link_field_conditions ev eng ups dfs = Inr cs2" and 2: "conditions = cs @ cs2" and
    3: "(if lf_ignore_user_permissions df then Inr []
            else (case map_of ups (lf_options df) of
                    None \<Rightarrow> Inr []
                  | Some user_permission_values \<Rightarrow>
                      if user_permission_values = [] then Inr []
                      else (case permitted_docs eng df user_permission_values of
                              Inl e \<Rightarrow> Inl e
                            | Inr docs \<Rightarrow>
                                if docs \<noteq> []
                                then Inr [user_permission_condition ev eng (lf_fieldname df) docs]
                                else Inr []))) = Inr cs"
    by (auto split: sum.splits)
  have mono: "?P (set (df # dfs)) c" if "?P (set dfs) c" for c
    using that by fastforce
  have a: "list_all (?P (set (df # dfs))) cs2"
    using Cons.IH[OF 1] mono unfolding list_all_iff by blast
  have b: "list_all (?P (set (df # dfs))) cs"
  proof (cases "cs = []")
    case True
    then show ?thesis by simp
  next
    case False
    with 3 obtain vals docs where
      v: "map_of ups (lf_options df) = Some vals" and
      d: "permitted_docs eng df vals = Inr docs" and
      n: "docs \<noteq> []" and
      c: "cs = [user_permission_condition ev eng (lf_fieldname df) docs]"
      by (auto split: if_splits option.splits sum.splits)
    from permitted_docs_applicable[OF d] have "docs = applicable_docs eng vals" .
    with v n c show ?thesis by auto
  qed
  from a b 2 show ?case by simp
qed

lemma permitted_docs_returns:
  "lf_fieldname df \<noteq> ''name'' \<or> list_all (\<lambda>p. \<not> str_truthy (up_applicable_for p)) vals \<Longrightarrow>
   \<exists>docs. permitted_docs eng df vals = Inr docs"
  by (induction vals) auto

lemma link_field_conditions_returns:
  "list_all (\<lambda>df. lf_fieldname df = ''name'' \<and> \<not> lf_ignore_user_permissions df \<longrightarrow>
                   list_all (\<lambda>p. \<not> str_truthy (up_applicable_for p))
                     (case map_of ups (lf_options df) of Some vals \<Rightarrow> vals | None \<Rightarrow> [])) dfs \<Longrightarrow>
   \<exists>cs. link_field_conditions ev eng ups dfs = Inr cs"
proof (induction dfs)
  case Nil
  then show ?case by simp
next
  case (Cons df dfs)
  then obtain cs2 where r: "link_field_conditions ev eng ups dfs = Inr cs2" by auto
  show ?case
  proof (cases "lf_ignore_user_permissions df")
    case True
    with r show ?thesis by simp
  next
    case False
    show ?thesis
    proof (cases "map_of ups (lf_options df)")
      case None
      with r False show ?thesis by simp
    next
      case (Some vals)
      from Cons.prems False Some
      have "lf_fieldname df \<noteq> ''name'' \<or> list_all (\<lambda>p. \<not> str_truthy (up_applicable_for p)) vals"
        by auto
      from permitted_docs_returns[OF this] obtain docs where
        "permitted_docs eng df vals = Inr docs" by blast
      with r False Some show ?thesis by simp
    qed
  qed
qed

lemma permitted_docs_scoped:
  "lf_fieldname df = ''name'' \<Longrightarrow> \<exists>p\<in>set vals. str_truthy (up_applicable_for p) \<Longrightarrow>
   permitted_docs eng df vals = Inl (AttributeError ''reference_doctype'')"
proof (induction vals)
  case Nil
  then show ?case by simp
next
  case (Cons p ps)
  show ?case
  proof (cases "str_truthy (up_applicable_for p)")
    case True
    with Cons.prems(1) show ?thesis by simp
  next
    case False
    with Cons.prems(2) have "\<exists>p\<in>set ps. str_truthy (up_applicable_for p)" by auto
    from Cons.IH[OF Cons.prems(1) this] False show ?thesis by simp
  qed
qed

lemma get_user_permission_conditions_scoped:
  assumes "rp_read rp \<or> rp_select rp"
    and "map_of (get_user_permissions ev (e_user eng)) (e_doctype eng) = Some vals"
    and "\<exists>p\<in>set vals. str_truthy (up_applicable_for p)"
  shows "get_user_permission_conditions ev eng rp = Inl (AttributeError ''reference_doctype'')"
proof -
  let ?df = "\<lparr> lf_fieldname = ''name'', lf_options = e_doctype eng, lf_ignore_user_permissions = False \<rparr>"
  from assms(3) have v: "vals \<noteq> []" by auto
  from assms(2) have u: "get_user_permissions ev (e_user eng) \<noteq> []" by auto
  have "permitted_docs eng ?df vals = Inl (AttributeError ''reference_doctype'')"
    using assms(3) by (intro permitted_docs_scoped) simp_all
  with assms(2) v
  have "link_field_conditions ev eng (get_user_permissions ev (e_user eng)) (get_doctype_link_fields ev eng)
          = Inl (AttributeError ''reference_doctype'')"
    by (simp add: get_doctype_link_fields_def)
  with assms(1) u show ?thesis
    by (simp add: get_user_permission_conditions_def Let_def)
qed

lemma user_permission_conditions_returned:
  assumes "rp_read rp \<or> rp_select rp"
    and "get_user_permission_conditions ev eng rp = Inr (conditions, fetch_shared_docs)"
  shows "list_all (is_user_permission_condition ev eng) conditions"
    and "fetch_shared_docs \<longleftrightarrow> get_user_permissions ev (e_user eng) \<noteq> []"
proof -
  have "list_all (is_user_permission_condition ev eng) conditions
        \<and> (fetch_shared_docs \<longleftrightarrow> get_user_permissions ev (e_user eng) \<noteq> [])"
  proof (cases "get_user_permissions ev (e_user eng) \<noteq> []")
    case False
    with assms show ?thesis
      by (auto simp: get_user_permission_conditions_def Let_def split: if_splits)
  next
    case True
    with assms have l: "link_field_conditions ev eng (get_user_permissions ev (e_user eng))
                          (get_doctype_link_fields ev eng) = Inr conditions"
      and f: "fetch_shared_docs"
      by (auto simp: get_user_permission_conditions_def Let_def split: if_splits sum.splits)
    from link_field_conditions_form[OF l]
    have "list_all (is_user_permission_condition ev eng) conditions"
      by (simp add: is_user_permission_condition_def user_permission_condition_def list_all_iff)
    with f True show ?thesis by simp
  qed
  then show "list_all (is_user_permission_condition ev eng) conditions"
    and "fetch_shared_docs \<longleftrightarrow> get_user_permissions ev (e_user eng) \<noteq> []"
    by simp_all
qed

lemma user_permission_conditions_returns:
  assumes "self_permissions_unscoped ev eng"
  shows "\<exists>conditions fetch_shared_docs.
           get_user_permission_conditions ev eng rp = Inr (conditions, fetch_shared_docs)"
proof -
  from assms obtain cs where
    "link_field_conditions ev eng (get_user_permissions ev (e_user eng))
       (get_doctype_link_fields ev eng) = Inr cs"
    unfolding self_permissions_unscoped_def by (blast dest: link_field_conditions_returns)
  then show ?thesis
    by (auto simp: get_user_permission_conditions_def Let_def)
qed

lemma user_permission_conditions_example:
  "get_user_permission_conditions example_env enforcing_engine
     (get_role_permissions example_env ''Task'' ''alice'')
     = Inr ([OrCrit (IsNullCrit (FieldObj (DocType ''Task'') ''territory'' None))
                    (IsInCrit (FieldObj (DocType ''Task'') ''territory'' None) (PList [PStr ''East'']))],
            True)"
  by code_simp

text \<open>
  C8. The code at a call on \<open>Task\<close> by a user whose role permissions grant \<open>read\<close> without the
  owner constraint and who holds a user permission on the task \<open>TASK-1\<close> that is applicable for
  \<open>Project\<close>: for the link field \<open>name\<close> the loop over the permitted values reads the attribute
  \<open>reference_doctype\<close> of the engine, which no method sets, so no constraint is generated and
  no shared-record fallback is marked: the function, the permission conditions and the build
  fail with an attribute error.
\<close>

theorem scoped_user_permission_raises:
  "rp_read (get_role_permissions scoped_permission_env ''Task'' ''alice'')
   \<and> \<not> requires_owner_constraint (get_role_permissions scoped_permission_env ''Task'' ''alice'')
   \<and> map_of (get_user_permissions scoped_permission_env ''alice'') ''Task''
       = Some [\<lparr>up_doc = ''TASK-1'', up_applicable_for = Some ''Project''\<rparr>]
   \<and> get_user_permission_conditions scoped_permission_env enforcing_engine
       (get_role_permissions scoped_permission_env ''Task'' ''alice'')
       = Inl (AttributeError ''reference_doctype'')
   \<and> permission_conditions scoped_permission_env enforcing_engine
       = Inl (AttributeError ''reference_doctype'')
   \<and> get_query scoped_permission_env (TableName ''Task'') (example_args\<lparr>a_ignore_permissions := False\<rparr>)
       = Inl (AttributeError ''reference_doctype'')"
proof -
  have a: "rp_read (get_role_permissions scoped_permission_env ''Task'' ''alice'')"
    by code_simp
  have b: "\<not> requires_owner_constraint (get_role_permissions scoped_permission_env ''Task'' ''alice'')"
    by code_simp
  have c: "map_of (get_user_permissions scoped_permission_env ''alice'') ''Task''
       = Some [\<lparr>up_doc = ''TASK-1'', up_applicable_for = Some ''Project''\<rparr>]"
    by code_simp
  have d: "get_user_permission_conditions scoped_permission_env enforcing_engine
       (get_role_permissions scoped_permission_env ''Task'' ''alice'')
       = Inl (AttributeError ''reference_doctype'')"
    by code_simp
  have e: "permission_conditions scoped_permission_env enforcing_engine
       = Inl (AttributeError ''reference_doctype'')"
    by code_simp
  have f: "get_query scoped_permission_env (TableName ''Task'') (example_args\<lparr>a_ignore_permissions := False\<rparr>)
       = Inl (AttributeError ''reference_doctype'')"
    by code_simp
  from a b c d e f show ?thesis by simp
qed

section \<open>A child query on a field that is no table\<close>

lemma non_table_key_entry:
  assumes "meta_get_field ev (e_doctype eng) k = Some f"
    and "df_fieldtype f \<notin> set (table_fields ev)"
  shows "parse_single_field_item ev eng (PDict [(PStr k, PList child_fields)]) = Inr (PList [ChildQuery None])"
    and "parse_fields ev eng (PList [PDict [(PStr k, PList child_fields)]]) = Inr [ChildQuery None]"
proof -
  show 1: "parse_single_field_item ev eng (PDict [(PStr k, PList child_fields)])
             = Inr (PList [ChildQuery None])"
    using assms by (simp add: parse_single_field_item_def ChildQuery_init_def)
  then show "parse_fields ev eng (PList [PDict [(PStr k, PList child_fields)]]) = Inr [ChildQuery None]"
    by (simp add: parse_fields_def)
qed

text \<open>
  C5. The code at a mapping whose key is the data field \<open>status\<close>: the constructor of the child
  query returns before it sets its attributes, and the object it leaves is an entry of the
  parsed field list and of the child queries of the assembled query; under permission
  enforcement the column filter reads its missing attribute \<open>doctype\<close> and the build fails.
\<close>

theorem non_table_child_query_kept:
  "map_option df_fieldtype (meta_get_field example_env ''Task'' ''status'') = Some ''Data''
   \<and> ''Data'' \<notin> set (table_fields example_env)
   \<and> parse_fields example_env example_engine (PList [PDict [(PStr ''status'', PList [PStr ''x''])]])
       = Inr [ChildQuery None]
   \<and> map_sum id q_child_queries
        (get_query example_env (TableName ''Task'')
           (example_args\<lparr>a_fields := PList [PDict [(PStr ''status'', PList [PStr ''x''])]]\<rparr>))
       = Inr [ChildQuery None]
   \<and> get_query example_env (TableName ''Task'')
        (example_args\<lparr>a_fields := PList [PDict [(PStr ''status'', PList [PStr ''x''])]],
                       a_ignore_permissions := False\<rparr>)
       = Inl (AttributeError ''doctype'')"
proof -
  have a: "map_option df_fieldtype (meta_get_field example_env ''Task'' ''status'') = Some ''Data''"
    by code_simp
  have b: "''Data'' \<notin> set (table_fields example_env)"
    by code_simp
  have c: "parse_fields example_env example_engine (PList [PDict [(PStr ''status'', PList [PStr ''x''])]])
       = Inr [ChildQuery None]"
    by code_simp
  have d: "map_sum id q_child_queries
        (get_query example_env (TableName ''Task'')
           (example_args\<lparr>a_fields := PList [PDict [(PStr ''status'', PList [PStr ''x''])]]\<rparr>))
       = Inr [ChildQuery None]"
    by code_simp
  have e: "get_query example_env (TableName ''Task'')
        (example_args\<lparr>a_fields := PList [PDict [(PStr ''status'', PList [PStr ''x''])]],
                       a_ignore_permissions := False\<rparr>)
       = Inl (AttributeError ''doctype'')"
    by code_simp
  from a b c d e show ?thesis by simp
qed

section \<open>Filter fields with special characters\<close>

lemma filter_field_accepted:
  assumes "validate_and_prepare_filter_field ev eng (PStr s) doctype = Inr (fld, eng')"
    and "SPECIAL_CHAR_PATTERN_search s"
  shows "(\<exists>dynamic. DynamicTableField_parse ev s (e_doctype eng) = Inr (Some dynamic)
            \<and> fld = dynamic_field dynamic
            \<and> eng' = eng\<lparr>e_query := apply_join dynamic (e_query eng)\<rparr>)
       \<or> (DynamicTableField_parse ev s (e_doctype eng) = Inr None
            \<and> re_match ALLOWED_SQL_FIELD_PATTERN s
            \<and> fld = FieldObj (DocType (case doctype of Some d \<Rightarrow> d | None \<Rightarrow> e_doctype eng)) s None
            \<and> eng' = eng)"
  using assms
  by (auto simp: validate_and_prepare_filter_field_def Let_def
        split: sum.splits option.splits if_splits)

lemma filter_field_rejected:
  assumes "validate_and_prepare_filter_field ev eng (PStr s) doctype = Inl e"
  shows "DynamicTableField_parse ev s (e_doctype eng) = Inl e
       \<or> (DynamicTableField_parse ev s (e_doctype eng) = Inr None
            \<and> \<not> re_match ALLOWED_SQL_FIELD_PATTERN s
            \<and> e = PermissionError (''Invalid filter field format: '' @ s))"
  using assms
  by (auto simp: validate_and_prepare_filter_field_def Let_def
        split: sum.splits option.splits if_splits)

text \<open>
  C1. The code at filter fields with a dot that the dynamic-field parser cannot take apart.
  \<open>tabNote.title\<close> matches the clause-field pattern, and \<open>a.b; DROP TABLE x\<close> does not; for both
  the parser looks the part before the dot up in the metadata, finds nothing and raises an
  attribute error before the pattern is asked, and for \<open>a.b.c\<close> it raises a value error: the
  build fails, with an error that is not the permission error.
\<close>

theorem dotted_filter_field_raises:
  "SPECIAL_CHAR_PATTERN_search ''tabNote.title''
   \<and> re_match ALLOWED_SQL_FIELD_PATTERN ''tabNote.title''
   \<and> validate_and_prepare_filter_field example_env example_engine (PStr ''tabNote.title'') None
       = Inl (AttributeError ''options'')
   \<and> get_query example_env (TableName ''Task'')
        (example_args\<lparr>a_filters := PDict [(PStr ''tabNote.title'', PStr ''x'')]\<rparr>)
       = Inl (AttributeError ''options'')
   \<and> SPECIAL_CHAR_PATTERN_search ''a.b; DROP TABLE x''
   \<and> \<not> re_match ALLOWED_SQL_FIELD_PATTERN ''a.b; DROP TABLE x''
   \<and> validate_and_prepare_filter_field example_env example_engine (PStr ''a.b; DROP TABLE x'') None
       = Inl (AttributeError ''options'')
   \<and> validate_and_prepare_filter_field example_env example_engine (PStr ''a.b.c'') None
       = Inl (ValueError ''values to unpack'')"
proof -
  have a: "SPECIAL_CHAR_PATTERN_search ''tabNote.title''"
    by code_simp
  have b: "re_match ALLOWED_SQL_FIELD_PATTERN ''tabNote.title''"
    by code_simp
  have c: "validate_and_prepare_filter_field example_env example_engine (PStr ''tabNote.title'') None
       = Inl (AttributeError ''options'')"
    by code_simp
  have d: "get_query example_env (TableName ''Task'')
        (example_args\<lparr>a_filters := PDict [(PStr ''tabNote.title'', PStr ''x'')]\<rparr>)
       = Inl (AttributeError ''options'')"
    by code_simp
  have e: "SPECIAL_CHAR_PATTERN_search ''a.b; DROP TABLE x''"
    by code_simp
  have f: "\<not> re_match ALLOWED_SQL_FIELD_PATTERN ''a.b; DROP TABLE x''"
    by code_simp
  have g: "validate_and_prepare_filter_field example_env example_engine (PStr ''a.b; DROP TABLE x'') None
       = Inl (AttributeError ''options'')"
    by code_simp
  have h: "validate_and_prepare_filter_field example_env example_engine (PStr ''a.b.c'') None
       = Inl (ValueError ''values to unpack'')"
    by code_simp
  from a b c d e f g h show ?thesis by simp
qed

end
